theory Spec2Isabelle
  imports Main "HOL-Library.Word"
begin

section \<open>Data model of \<open>src/connection.ts\<close>\<close>

type_synonym byte = "8 word"

text \<open>The \<open>ConnectionState\<close> enum.\<close>

datatype ConnectionState = CONNECTING | CONNECTED | CLOSING | CLOSED

text \<open>
  The values that the methods throw. \<open>ConnnectionError\<close>, \<open>ReadError\<close> and
  \<open>ResponseTimeoutError\<close> are the classes imported from \<open>constant/errors.ts\<close>,
  \<open>Error\<close> is the plain JavaScript \<open>Error\<close> (it carries the server's message),
  \<open>IOError\<close> stands for what the socket primitive raises, \<open>DecodeError\<close> for what a
  parser raises on a malformed payload, \<open>TypeError\<close> for a method call on \<open>undefined\<close>.
\<close>

datatype error =
    ConnnectionError string
  | ReadError string
  | ResponseTimeoutError string
  | Error string
  | IOError string
  | DecodeError string
  | TypeError string

text \<open>The classification that \<open>ReceivePacket.parse\<close> stores in \<open>packet.type\<close>.\<close>

datatype PacketType = OK | ERR | EOF | RESULT

text \<open>
  Modelled from the spec: the byte cursor (\<open>packet.body\<close>) is not among the sources;
  section 4.1 describes it as a fixed buffer with an internal offset.
\<close>

record BufferReader =
  buffer :: "byte list"
  pos :: nat

record ReceivePacket =
  ptype :: PacketType
  body :: BufferReader

text \<open>
  Modelled from the spec: the handshake packet (section 3); \<open>_connect\<close> reads its
  \<open>serverVersion\<close> and \<open>serverCapabilities\<close>.
\<close>

record HandshakePacket =
  protocolVersion :: nat
  serverVersion :: string
  connectionId :: nat
  authSeed :: "byte list"
  serverCapabilities :: nat
  hcharset :: nat

text \<open>The object literal that \<open>_connect\<close> hands to \<open>buildAuth\<close>.\<close>

record AuthParams =
  ausername :: string
  apassword :: "string option"
  adb :: "string option"

text \<open>What \<open>parseError\<close> returns: \<open>error.code\<close> and \<open>error.message\<close>.\<close>

record ErrorPacket =
  code :: nat
  message :: string

text \<open>\<open>ClientConfig\<close>, with an absent property as \<open>None\<close>.\<close>

record ClientConfig =
  hostname :: string
  port :: "nat option"
  username :: "string option"
  password :: "string option"
  db :: "string option"
  charset :: "string option"
  timeout :: "nat option"

text \<open>
  \<open>ExecuteResult\<close>: four optional properties. The type of a row and of a field
  description belong to the result parser, so they are type parameters.
\<close>

record ('f, 'r) ExecuteResult =
  affectedRows :: "nat option"
  lastInsertId :: "nat option"
  fields' :: "'f list option"
  rows :: "'r list option"

text \<open>What \<open>query\<close> returns: \<open>ExecuteResult | any[]\<close>.\<close>

datatype ('f, 'r) QueryResult = Rows "'r list" | Result "('f, 'r) ExecuteResult"

text \<open>\<open>Deno.Conn\<close>: the handle of a socket; closing it releases the resource.\<close>

record Conn =
  sock_open :: bool

text \<open>
  What the environment does at one packet read (\<open>new ReceivePacket().parse(conn)\<close>):
  it delivers a packet, reports the end of the stream (\<open>parse\<close> returns \<open>null\<close>),
  raises, or stays silent until the timer armed by \<open>nextPacket\<close> fires.
\<close>

datatype rd_event =
    RdPacket ReceivePacket
  | RdNull
  | RdFail error
  | RdTimeout

text \<open>The calls that reach the socket and the timer, in the order they are made.\<close>

datatype sock_op =
    SockConnect string nat
  | SockRead
  | SockWrite nat "byte list"
  | SockClose
  | SetTimeout nat
  | ClearTimeout

text \<open>
  The \<open>Connection\<close> class: its five mutable fields and \<open>config\<close>, followed by the
  environment it runs in and by two histories. \<open>inbox\<close> lists what each further packet
  read will meet, \<open>sendq\<close> and \<open>dialq\<close> the outcome of each further write and of each
  further \<open>Deno.connect\<close> (\<open>None\<close>, or nothing listed: success). \<open>ops\<close> records the
  socket and timer calls, \<open>trace\<close> every value assigned to \<open>state\<close>.
\<close>

record Connection =
  state :: ConnectionState
  capabilities :: nat
  serverVersion :: string
  conn :: "Conn option"
  timedOut :: bool
  config :: ClientConfig
  inbox :: "rd_event list"
  sendq :: "error option list"
  dialq :: "error option list"
  ops :: "sock_op list"
  trace :: "ConnectionState list"

text \<open>
  The functions that \<open>connection.ts\<close> imports from modules not among the sources
  (\<open>packets/builders\<close>, \<open>packets/parsers\<close>). They are parameters of the model; each may
  raise. \<open>parseError\<close> is handed the connection itself, as in the source.
\<close>

record ('f, 'r, 'p) Codec =
  parseHandshake :: "BufferReader \<Rightarrow> error + HandshakePacket"
  buildAuth :: "HandshakePacket \<Rightarrow> AuthParams \<Rightarrow> error + byte list"
  buildQuery :: "string \<Rightarrow> 'p list option \<Rightarrow> error + byte list"
  parseError :: "BufferReader \<Rightarrow> Connection \<Rightarrow> error + ErrorPacket"
  parseField :: "BufferReader \<Rightarrow> error + 'f"
  parseRow :: "BufferReader \<Rightarrow> 'f list \<Rightarrow> error + 'r"

section \<open>Strings\<close>

text \<open>
  JavaScript compares strings with \<open><\<close> by code units, position by position; a proper
  prefix is smaller.
\<close>

fun str_less :: "string \<Rightarrow> string \<Rightarrow> bool" where
  "str_less [] [] = False"
| "str_less [] (y # ys) = True"
| "str_less (x # xs) [] = False"
| "str_less (x # xs) (y # ys) =
     ((of_char x :: nat) < of_char y \<or> (x = y \<and> str_less xs ys))"

fun startsWith :: "string \<Rightarrow> string \<Rightarrow> bool" where
  "startsWith s [] = True"
| "startsWith [] (y # ys) = False"
| "startsWith (x # xs) (y # ys) = (x = y \<and> startsWith xs ys)"

text \<open>\<open>s.includes(t)\<close>: \<open>t\<close> occurs in \<open>s\<close> as a contiguous run.\<close>

fun includes_str :: "string \<Rightarrow> string \<Rightarrow> bool" where
  "includes_str [] t = (t = [])"
| "includes_str (x # xs) t = (startsWith (x # xs) t \<or> includes_str xs t)"

text \<open>\<open>s.split(sep)\<close> for a separator of one character.\<close>

fun split_on :: "char \<Rightarrow> string \<Rightarrow> string list" where
  "split_on sep [] = [[]]"
| "split_on sep (x # xs) =
     (if x = sep then [] # split_on sep xs
      else (case split_on sep xs of
              [] \<Rightarrow> [[x]]
            | s # ss \<Rightarrow> (x # s) # ss))"

text \<open>\<open>xs[i]\<close> on a JavaScript array: \<open>undefined\<close> out of range.\<close>

definition at_index :: "'a list \<Rightarrow> nat \<Rightarrow> 'a option" where
  "at_index xs i = (if i < length xs then Some (xs ! i) else None)"

section \<open>\<open>lessThan57\<close>\<close>

definition lessThan57 :: "Connection \<Rightarrow> bool" where
  "lessThan57 c =
     (let version = serverVersion c in
      if \<not> includes_str version ''MariaDB'' then str_less version ''5.7.0''
      else
        (let segments = split_on CHR ''-'' version in
         if at_index segments 1 = Some ''MariaDB''
         then (case at_index segments 0 of
                 Some s \<Rightarrow> str_less s ''5.7.0''
               | None \<Rightarrow> False)
         else False))"

section \<open>The byte cursor\<close>

text \<open>
  Modelled from the spec: \<open>skip\<close>, \<open>readUint8\<close> and \<open>readEncodedLen\<close> of the byte
  cursor (section 4.1). \<open>skip(n)\<close> moves the offset; a read past the end raises a
  decode error; integers of more than one byte are little-endian.
\<close>

definition skip :: "nat \<Rightarrow> BufferReader \<Rightarrow> BufferReader" where
  "skip n r = r\<lparr>pos := pos r + n\<rparr>"

definition readUint8 :: "BufferReader \<Rightarrow> error + (nat \<times> BufferReader)" where
  "readUint8 r =
     (if pos r < length (buffer r)
      then Inr (unat (buffer r ! pos r), r\<lparr>pos := pos r + 1\<rparr>)
      else Inl (DecodeError ''read past the end''))"

fun le_value :: "byte list \<Rightarrow> nat" where
  "le_value [] = 0"
| "le_value (b # bs) = unat b + 256 * le_value bs"

definition readUints :: "nat \<Rightarrow> BufferReader \<Rightarrow> error + (nat \<times> BufferReader)" where
  "readUints n r =
     (if pos r + n \<le> length (buffer r)
      then Inr (le_value (take n (drop (pos r) (buffer r))), r\<lparr>pos := pos r + n\<rparr>)
      else Inl (DecodeError ''read past the end''))"

text \<open>
  Modelled from the spec: the length-encoded integer. A first byte below \<open>0xfb\<close> is the
  value; \<open>0xfc\<close>, \<open>0xfd\<close> and \<open>0xfe\<close> announce 2, 3 and 8 bytes; \<open>0xfb\<close> alone is
  read as 0. The spec gives no value to a first byte \<open>0xff\<close>: it is a decode error here.
\<close>

definition readEncodedLen :: "BufferReader \<Rightarrow> error + (nat \<times> BufferReader)" where
  "readEncodedLen r =
     (case readUint8 r of
        Inl e \<Rightarrow> Inl e
      | Inr (first, r1) \<Rightarrow>
          if first < 0xfb then Inr (first, r1)
          else if first = 0xfc then readUints 2 r1
          else if first = 0xfd then readUints 3 r1
          else if first = 0xfe then readUints 8 r1
          else if first = 0xfb then Inr (0, r1)
          else Inl (DecodeError ''not a length-encoded integer''))"

section \<open>The socket and the histories\<close>

definition log_op :: "sock_op \<Rightarrow> Connection \<Rightarrow> Connection" where
  "log_op e c = c\<lparr>ops := ops c @ [e]\<rparr>"

text \<open>An assignment \<open>this.state = v\<close>.\<close>

definition set_state :: "ConnectionState \<Rightarrow> Connection \<Rightarrow> Connection" where
  "set_state v c = c\<lparr>state := v, trace := trace c @ [v]\<rparr>"

definition BadResource :: error where
  "BadResource = IOError ''Bad resource ID''"

text \<open>
  \<open>Deno.Conn.close()\<close> releases the resource of the socket. The runtime raises
  \<open>BadResource\<close> when the resource has been released before, as it does for a read or
  a write on it.
\<close>

definition conn_close :: "Conn \<Rightarrow> Connection \<Rightarrow> (error + unit) \<times> Connection" where
  "conn_close k c =
     (let c1 = log_op SockClose c in
      if sock_open k then (Inr (), c1\<lparr>conn := Some (k\<lparr>sock_open := False\<rparr>)\<rparr>)
      else (Inl BadResource, c1))"

text \<open>
  \<open>Deno.connect\<close>: on success \<open>this.conn\<close> is a new open socket. A failure is raised
  before the assignment.
\<close>

definition deno_connect :: "string \<Rightarrow> nat \<Rightarrow> Connection \<Rightarrow> (error + unit) \<times> Connection" where
  "deno_connect h p c =
     (let c1 = log_op (SockConnect h p) c in
      case dialq c1 of
        Some e # rest \<Rightarrow> (Inl e, c1\<lparr>dialq := rest\<rparr>)
      | None # rest \<Rightarrow> (Inr (), c1\<lparr>dialq := rest, conn := Some \<lparr>sock_open = True\<rparr>\<rparr>)
      | [] \<Rightarrow> (Inr (), c1\<lparr>conn := Some \<lparr>sock_open = True\<rparr>\<rparr>))"

text \<open>
  \<open>new SendPacket(data, seq).send(conn)\<close>, where \<open>conn\<close> is \<open>this.conn\<close>: a method
  call on \<open>undefined\<close> when no socket was opened, \<open>BadResource\<close> on a closed socket,
  otherwise what the environment decides for this write.
\<close>

definition send :: "byte list \<Rightarrow> nat \<Rightarrow> Connection \<Rightarrow> (error + unit) \<times> Connection" where
  "send data seq c =
     (case conn c of
        None \<Rightarrow> (Inl (TypeError ''conn is undefined''), c)
      | Some k \<Rightarrow>
          (let c1 = log_op (SockWrite seq data) c in
           if \<not> sock_open k then (Inl BadResource, c1)
           else (case sendq c1 of
                   Some e # rest \<Rightarrow> (Inl e, c1\<lparr>sendq := rest\<rparr>)
                 | None # rest \<Rightarrow> (Inr (), c1\<lparr>sendq := rest\<rparr>)
                 | [] \<Rightarrow> (Inr (), c1))))"

section \<open>\<open>close\<close>, the timeout callback and \<open>nextPacket\<close>\<close>

text \<open>
  \<open>close()\<close>: \<open>this.state = CLOSING; this.conn && this.conn.close(); this.state = CLOSED\<close>.
  When the call on the socket raises, the last assignment is not reached.
\<close>

definition close :: "Connection \<Rightarrow> (error + unit) \<times> Connection" where
  "close c =
     (let c1 = set_state CLOSING c in
      case conn c1 of
        None \<Rightarrow> (Inr (), set_state CLOSED c1)
      | Some k \<Rightarrow>
          (case conn_close k c1 of
             (Inl e, c2) \<Rightarrow> (Inl e, c2)
           | (Inr u, c2) \<Rightarrow> (Inr (), set_state CLOSED c2)))"

text \<open>\<open>_timeoutCallback\<close>: \<open>this._timedOut = true; this.close()\<close>.\<close>

definition timeoutCallback :: "Connection \<Rightarrow> (error + unit) \<times> Connection" where
  "timeoutCallback c = close (c\<lparr>timedOut := True\<rparr>)"

text \<open>\<open>this.config.timeout || 30000\<close>.\<close>

definition timeoutMs :: "ClientConfig \<Rightarrow> nat" where
  "timeoutMs cfg = (case timeout cfg of None \<Rightarrow> 30000 | Some t \<Rightarrow> if t = 0 then 30000 else t)"

text \<open>\<open>this.close(); throw e\<close>: when \<open>close\<close> raises, its error is the one thrown.\<close>

definition close_then_throw :: "error \<Rightarrow> Connection \<Rightarrow> (error + 'a) \<times> Connection" where
  "close_then_throw e c =
     (case close c of
        (Inl e', c1) \<Rightarrow> (Inl e', c1)
      | (Inr u, c1) \<Rightarrow> (Inl e, c1))"

text \<open>The \<open>catch\<close> block around the read in \<open>nextPacket\<close>.\<close>

definition read_failed :: "error \<Rightarrow> Connection \<Rightarrow> (error + ReceivePacket) \<times> Connection" where
  "read_failed e c =
     (if timedOut c then (Inl (ResponseTimeoutError ''Connection read timed out''), c)
      else close_then_throw e (log_op ClearTimeout c))"

text \<open>
  \<open>nextPacket\<close>. The timer is armed, then the read is awaited. A read on a socket that
  is closed already raises at once. When nothing arrives (\<open>RdTimeout\<close>, or nothing left
  in \<open>inbox\<close>) the timer fires: the callback runs, the read is aborted by the close and
  raises. An error raised inside the callback would not reach the pending read.
\<close>

definition nextPacket ::
  "('f, 'r, 'p) Codec \<Rightarrow> Connection \<Rightarrow> (error + ReceivePacket) \<times> Connection" where
  "nextPacket cd c =
     (case conn c of
        None \<Rightarrow> (Inl (ConnnectionError ''Not connected''), c)
      | Some k \<Rightarrow>
          (let c1 = log_op SockRead (log_op (SetTimeout (timeoutMs (config c))) c) in
           if \<not> sock_open k then read_failed BadResource c1
           else
             (case inbox c1 of
                [] \<Rightarrow> read_failed (IOError ''read aborted'') (snd (timeoutCallback c1))
              | ev # rest \<Rightarrow>
                  (let c2 = c1\<lparr>inbox := rest\<rparr> in
                   case ev of
                     RdTimeout \<Rightarrow>
                       read_failed (IOError ''read aborted'') (snd (timeoutCallback c2))
                   | RdFail e \<Rightarrow> read_failed e c2
                   | RdNull \<Rightarrow>
                       close_then_throw (ReadError ''Connection closed unexpectedly'')
                         (log_op ClearTimeout c2)
                   | RdPacket packet \<Rightarrow>
                       (let c3 = log_op ClearTimeout c2 in
                        if ptype packet = ERR then
                          (case parseError cd (skip 1 (body packet)) c3 of
                             Inl e \<Rightarrow> (Inl e, c3)
                           | Inr err \<Rightarrow> (Inl (Error (message err)), c3))
                        else (Inr packet, c3))))))"

text \<open>A packet is returned only after one entry of \<open>inbox\<close> was used up.\<close>

lemma nextPacket_consumes:
  "nextPacket cd c = (Inr p, c') \<Longrightarrow> length (inbox c') < length (inbox c)"
  by (auto simp: nextPacket_def read_failed_def close_then_throw_def log_op_def Let_def
      split: option.splits list.splits rd_event.splits if_splits sum.splits prod.splits)

section \<open>\<open>execute\<close> and \<open>query\<close>\<close>

text \<open>
  The loop \<open>while (fieldCount--)\<close>: one packet per field, parsed and pushed onto
  \<open>fields\<close>.
\<close>

fun readFields ::
  "('f, 'r, 'p) Codec \<Rightarrow> nat \<Rightarrow> 'f list \<Rightarrow> Connection \<Rightarrow> (error + 'f list) \<times> Connection" where
  "readFields cd 0 fs c = (Inr fs, c)"
| "readFields cd (Suc fieldCount) fs c =
     (case nextPacket cd c of
        (Inl e, c1) \<Rightarrow> (Inl e, c1)
      | (Inr packet, c1) \<Rightarrow>
          (case parseField cd (body packet) of
             Inl e \<Rightarrow> (Inl e, c1)
           | Inr field \<Rightarrow> readFields cd fieldCount (fs @ [field]) c1))"

text \<open>
  The statement \<open>if (this.lessThan57()) receive = await this.nextPacket()\<close>: the packet
  is read and not looked at.
\<close>

definition legacyEof :: "('f, 'r, 'p) Codec \<Rightarrow> Connection \<Rightarrow> (error + unit) \<times> Connection" where
  "legacyEof cd c =
     (if lessThan57 c then
        (case nextPacket cd c of
           (Inl e, c1) \<Rightarrow> (Inl e, c1)
         | (Inr receive, c1) \<Rightarrow> (Inr (), c1))
      else (Inr (), c))"

text \<open>The loop \<open>while (true)\<close> that reads the rows.\<close>

function readRows ::
  "('f, 'r, 'p) Codec \<Rightarrow> 'f list \<Rightarrow> 'r list \<Rightarrow> Connection \<Rightarrow> (error + 'r list) \<times> Connection" where
  "readRows cd fs rs c =
     (case nextPacket cd c of
        (Inl e, c1) \<Rightarrow> (Inl e, c1)
      | (Inr receive, c1) \<Rightarrow>
          if ptype receive = EOF then (Inr rs, c1)
          else
            (case parseRow cd (body receive) fs of
               Inl e \<Rightarrow> (Inl e, c1)
             | Inr row \<Rightarrow> readRows cd fs (rs @ [row]) c1))"
  by pat_completeness auto
termination
  by (relation "measure (\<lambda>(cd, fs, rs, c). length (inbox c))")
    (auto dest: nextPacket_consumes [OF sym])

declare readRows.simps [simp del]

text \<open>The object literal \<open>{ rows, fields }\<close> that ends a result set.\<close>

definition result_set :: "'f list \<Rightarrow> 'r list \<Rightarrow> ('f, 'r) ExecuteResult" where
  "result_set fs rs =
     \<lparr>affectedRows = None, lastInsertId = None, fields' = Some fs, rows = Some rs\<rparr>"

text \<open>
  \<open>execute\<close> from \<open>let receive = await this.nextPacket()\<close> to its end: the response
  to the query that was sent.
\<close>

definition readResponse ::
  "('f, 'r, 'p) Codec \<Rightarrow> Connection \<Rightarrow> (error + ('f, 'r) ExecuteResult) \<times> Connection" where
  "readResponse cd c =
     (case nextPacket cd c of
        (Inl e, c1) \<Rightarrow> (Inl e, c1)
      | (Inr receive, c1) \<Rightarrow>
          if ptype receive = OK then
            (case readEncodedLen (skip 1 (body receive)) of
               Inl e \<Rightarrow> (Inl e, c1)
             | Inr (a, b1) \<Rightarrow>
                 (case readEncodedLen b1 of
                    Inl e \<Rightarrow> (Inl e, c1)
                  | Inr (l, b2) \<Rightarrow>
                      (Inr \<lparr>affectedRows = Some a, lastInsertId = Some l,
                            fields' = None, rows = None\<rparr>, c1)))
          else
            (case readEncodedLen (body receive) of
               Inl e \<Rightarrow> (Inl e, c1)
             | Inr (fieldCount, b1) \<Rightarrow>
                 (case readFields cd fieldCount [] c1 of
                    (Inl e, c2) \<Rightarrow> (Inl e, c2)
                  | (Inr fs, c2) \<Rightarrow>
                      (case legacyEof cd c2 of
                         (Inl e, c3) \<Rightarrow> (Inl e, c3)
                       | (Inr u, c3) \<Rightarrow>
                           (case readRows cd fs [] c3 of
                              (Inl e, c4) \<Rightarrow> (Inl e, c4)
                            | (Inr rs, c4) \<Rightarrow> (Inr (result_set fs rs), c4))))))"

text \<open>
  \<open>execute\<close>: the check of the state, \<open>buildQuery\<close>, the write at sequence number 0
  inside its \<open>try\<close>, then the response.
\<close>

definition execute ::
  "('f, 'r, 'p) Codec \<Rightarrow> string \<Rightarrow> 'p list option \<Rightarrow> Connection
     \<Rightarrow> (error + ('f, 'r) ExecuteResult) \<times> Connection" where
  "execute cd sql params c =
     (if state c \<noteq> CONNECTED then
        (if state c = CLOSED then (Inl (ConnnectionError ''Connection is closed''), c)
         else (Inl (ConnnectionError ''Must be connected first''), c))
      else
        (case buildQuery cd sql params of
           Inl e \<Rightarrow> (Inl e, c)
         | Inr data \<Rightarrow>
             (case send data 0 c of
                (Inl e, c1) \<Rightarrow>
                  (if state c1 \<noteq> CLOSED then close_then_throw e c1 else (Inl e, c1))
              | (Inr u, c1) \<Rightarrow> readResponse cd c1)))"

text \<open>\<open>query\<close>: \<open>result.rows\<close> when the result has rows (an array is truthy, also when empty).\<close>

definition query ::
  "('f, 'r, 'p) Codec \<Rightarrow> string \<Rightarrow> 'p list option \<Rightarrow> Connection
     \<Rightarrow> (error + ('f, 'r) QueryResult) \<times> Connection" where
  "query cd sql params c =
     (case execute cd sql params c of
        (Inl e, c1) \<Rightarrow> (Inl e, c1)
      | (Inr result, c1) \<Rightarrow>
          (case rows result of
             Some rs \<Rightarrow> (Inr (Rows rs), c1)
           | None \<Rightarrow> (Inr (Result result), c1)))"

section \<open>\<open>connect\<close>\<close>

text \<open>
  The \<open>try\<close> block of \<open>_connect\<close> from the second \<open>nextPacket\<close> on: the server's
  reply to the authentication, then \<open>SET NAMES\<close> when a charset is configured.
\<close>

definition connect_reply :: "('f, 'r, 'p) Codec \<Rightarrow> Connection \<Rightarrow> (error + unit) \<times> Connection" where
  "connect_reply cd c =
     (case nextPacket cd c of
        (Inl e, c1) \<Rightarrow> (Inl e, c1)
      | (Inr receive, c1) \<Rightarrow>
          (case readUint8 (body receive) of
             Inl e \<Rightarrow> (Inl e, c1)
           | Inr (header, b1) \<Rightarrow>
               if header = 0xff then
                 (case parseError cd b1 c1 of
                    Inl e \<Rightarrow> (Inl e, c1)
                  | Inr err \<Rightarrow> close_then_throw (Error (message err)) c1)
               else
                 (let c2 = set_state CONNECTED c1 in
                  case charset (config c2) of
                    None \<Rightarrow> (Inr (), c2)
                  | Some cs \<Rightarrow>
                      if cs = [] then (Inr (), c2)
                      else
                        (case execute cd (''SET NAMES '' @ cs) None c2 of
                           (Inl e, c3) \<Rightarrow> (Inl e, c3)
                         | (Inr result, c3) \<Rightarrow> (Inr (), c3)))))"

text \<open>
  The \<open>try\<close> block of \<open>_connect\<close>: the handshake is read and parsed, the
  authentication is sent at sequence number 1, the three fields are assigned, and the
  reply is awaited.
\<close>

definition connect_try :: "('f, 'r, 'p) Codec \<Rightarrow> Connection \<Rightarrow> (error + unit) \<times> Connection" where
  "connect_try cd c =
     (case nextPacket cd c of
        (Inl e, c1) \<Rightarrow> (Inl e, c1)
      | (Inr receive, c1) \<Rightarrow>
          (case parseHandshake cd (body receive) of
             Inl e \<Rightarrow> (Inl e, c1)
           | Inr handshakePacket \<Rightarrow>
               (case buildAuth cd handshakePacket
                       \<lparr>ausername = (case username (config c1) of None \<Rightarrow> [] | Some u \<Rightarrow> u),
                        apassword = password (config c1), adb = db (config c1)\<rparr> of
                  Inl e \<Rightarrow> (Inl e, c1)
                | Inr data \<Rightarrow>
                    (case send data 1 c1 of
                       (Inl e, c2) \<Rightarrow> (Inl e, c2)
                     | (Inr u, c2) \<Rightarrow>
                         connect_reply cd
                           ((set_state CONNECTING c2)
                              \<lparr>serverVersion := HandshakePacket.serverVersion handshakePacket,
                               capabilities := serverCapabilities handshakePacket\<rparr>)))))"

text \<open>
  \<open>_connect\<close>: \<open>Deno.connect\<close> is outside the \<open>try\<close>; the \<open>catch\<close> closes unless the
  state is \<open>CLOSED\<close> already, then throws the error again.
\<close>

definition connect_impl :: "('f, 'r, 'p) Codec \<Rightarrow> Connection \<Rightarrow> (error + unit) \<times> Connection" where
  "connect_impl cd c =
     (case deno_connect (hostname (config c))
             (case port (config c) of None \<Rightarrow> 3306 | Some p \<Rightarrow> p) c of
        (Inl e, c1) \<Rightarrow> (Inl e, c1)
      | (Inr u, c1) \<Rightarrow>
          (case connect_try cd c1 of
             (Inl e, c2) \<Rightarrow>
               (if state c2 \<noteq> CLOSED then close_then_throw e c2 else (Inl e, c2))
           | (Inr u', c2) \<Rightarrow> (Inr (), c2)))"

definition connect :: "('f, 'r, 'p) Codec \<Rightarrow> Connection \<Rightarrow> (error + unit) \<times> Connection" where
  "connect cd c = connect_impl cd c"

text \<open>\<open>new Connection(config)\<close>: the field initialisers, in a given environment.\<close>

definition newConnection ::
  "ClientConfig \<Rightarrow> rd_event list \<Rightarrow> error option list \<Rightarrow> error option list \<Rightarrow> Connection" where
  "newConnection cfg ib sq dq =
     \<lparr>state = CONNECTING, capabilities = 0, serverVersion = [], conn = None, timedOut = False,
      config = cfg, inbox = ib, sendq = sq, dialq = dq, ops = [], trace = []\<rparr>"

section \<open>Auxiliary definitions\<close>

subsection \<open>Successful steps\<close>

text \<open>The connection after one packet was read and returned by \<open>nextPacket\<close>.\<close>

definition after_read :: "Connection \<Rightarrow> Connection" where
  "after_read c =
     log_op ClearTimeout
       ((log_op SockRead (log_op (SetTimeout (timeoutMs (config c))) c))\<lparr>inbox := tl (inbox c)\<rparr>)"

text \<open>The connection after a write that succeeded.\<close>

definition sent :: "nat \<Rightarrow> byte list \<Rightarrow> Connection \<Rightarrow> Connection" where
  "sent seq data c = (log_op (SockWrite seq data) c)\<lparr>sendq := tl (sendq c)\<rparr>"

text \<open>The next write succeeds: the socket is open and the environment lets it pass.\<close>

definition send_ok :: "Connection \<Rightarrow> bool" where
  "send_ok c =
     ((case conn c of None \<Rightarrow> False | Some k \<Rightarrow> sock_open k) \<and>
      (case sendq c of Some e # rest \<Rightarrow> False | _ \<Rightarrow> True))"

text \<open>The connection after \<open>close()\<close> closed an open socket \<open>k\<close>.\<close>

definition closed :: "Conn \<Rightarrow> Connection \<Rightarrow> Connection" where
  "closed k c =
     set_state CLOSED
       ((log_op SockClose (set_state CLOSING c))\<lparr>conn := Some (k\<lparr>sock_open := False\<rparr>)\<rparr>)"

subsection \<open>Sample values\<close>

text \<open>
  A packet with its cursor at the start, a configuration, stand-ins for the imported
  parsers and builders (the handshake announces version \<open>v\<close>; a field, a row and an
  error message are the bytes left in the payload), and a connection in state
  \<open>CONNECTED\<close> on an open socket. They serve as concrete inputs.
\<close>

definition packet :: "PacketType \<Rightarrow> byte list \<Rightarrow> ReceivePacket" where
  "packet t bs = \<lparr>ptype = t, body = \<lparr>buffer = bs, pos = 0\<rparr>\<rparr>"

definition sample_config :: ClientConfig where
  "sample_config =
     \<lparr>hostname = ''db.local'', port = None, username = Some ''root'', password = None,
      db = None, charset = None, timeout = None\<rparr>"

text \<open>The bytes of a payload read as text.\<close>

definition text_of :: "byte list \<Rightarrow> string" where
  "text_of bs = map (\<lambda>b. char_of (unat b)) bs"

definition sample_codec :: "string \<Rightarrow> (byte list, byte list \<times> byte list list, string) Codec" where
  "sample_codec v =
     \<lparr>parseHandshake = (\<lambda>r. Inr \<lparr>protocolVersion = 10, serverVersion = v, connectionId = 1,
                                 authSeed = [], serverCapabilities = 0xf7ff, hcharset = 33\<rparr>),
      buildAuth = (\<lambda>h a. Inr []),
      buildQuery = (\<lambda>sql ps. Inr (3 # map of_char sql)),
      parseError = (\<lambda>r c. Inr \<lparr>code = 1045, message = text_of (drop (pos r) (buffer r))\<rparr>),
      parseField = (\<lambda>r. Inr (drop (pos r) (buffer r))),
      parseRow = (\<lambda>r fs. Inr (drop (pos r) (buffer r), fs))\<rparr>"

definition connected_to :: "string \<Rightarrow> rd_event list \<Rightarrow> Connection" where
  "connected_to v ib =
     (newConnection sample_config ib [] [])
       \<lparr>state := CONNECTED, serverVersion := v, conn := Some \<lparr>sock_open = True\<rparr>\<rparr>"

text \<open>
  A connection whose first \<open>connect\<close> ran into the timeout while it waited for the reply
  to the authentication, and the same connection after a second \<open>connect\<close> that went
  well. The configured timeout is 5000.
\<close>

definition timed_out_once :: Connection where
  "timed_out_once =
     snd (connect (sample_codec ''8.0.21'')
            (newConnection (sample_config\<lparr>timeout := Some 5000\<rparr>)
               [RdPacket (packet RESULT [10]), RdTimeout,
                RdPacket (packet RESULT [10]), RdPacket (packet OK [0]),
                RdFail (IOError ''connection reset'')] [] []))"

definition reconnected :: Connection where
  "reconnected = snd (connect (sample_codec ''8.0.21'') timed_out_once)"

subsection \<open>Invariants of the steps\<close>

text \<open>The error that \<open>nextPacket\<close> throws when the flag is set.\<close>

definition timeout_error :: error where
  "timeout_error = ResponseTimeoutError ''Connection read timed out''"

text \<open>
  What a step from \<open>c\<close> with outcome \<open>rc\<close> may do to \<open>_timedOut\<close>: when the flag is
  set afterwards and was not before, the step failed with the timeout error and left the
  state \<open>CLOSED\<close>.
\<close>

definition flag_ok :: "Connection \<Rightarrow> (error + 'a) \<times> Connection \<Rightarrow> bool" where
  "flag_ok c rc =
     (timedOut (snd rc) \<longrightarrow>
        timedOut c \<or> (fst rc = Inl timeout_error \<and> state (snd rc) = CLOSED))"

subsection \<open>The steps of \<open>connect\<close>\<close>

text \<open>The next \<open>Deno.connect\<close> and the next write are let through.\<close>

definition dial_ok :: "Connection \<Rightarrow> bool" where
  "dial_ok c = (case dialq c of Some e # rest \<Rightarrow> False | _ \<Rightarrow> True)"

definition write_ok :: "Connection \<Rightarrow> bool" where
  "write_ok c = (case sendq c of Some e # rest \<Rightarrow> False | _ \<Rightarrow> True)"

text \<open>The connection after \<open>Deno.connect\<close> succeeded.\<close>

definition dialed :: "Connection \<Rightarrow> Connection" where
  "dialed c =
     (log_op (SockConnect (hostname (config c))
                (case port (config c) of None \<Rightarrow> 3306 | Some p \<Rightarrow> p)) c)
       \<lparr>dialq := tl (dialq c), conn := Some \<lparr>sock_open = True\<rparr>\<rparr>"

text \<open>The argument of \<open>buildAuth\<close>.\<close>

definition auth_params :: "Connection \<Rightarrow> AuthParams" where
  "auth_params c =
     \<lparr>ausername = (case username (config c) of None \<Rightarrow> [] | Some u \<Rightarrow> u),
      apassword = password (config c), adb = db (config c)\<rparr>"

text \<open>
  The connection when the reply to the authentication is awaited: the handshake was read,
  the authentication sent, and the three fields assigned.
\<close>

definition handshaken :: "HandshakePacket \<Rightarrow> byte list \<Rightarrow> Connection \<Rightarrow> Connection" where
  "handshaken hp data c =
     (set_state CONNECTING (sent 1 data (after_read (dialed c))))
       \<lparr>serverVersion := HandshakePacket.serverVersion hp,
        capabilities := serverCapabilities hp\<rparr>"

text \<open>A step from \<open>c\<close> with outcome \<open>rc\<close> leaves \<open>serverVersion\<close> and \<open>capabilities\<close> alone.\<close>

definition kept :: "Connection \<Rightarrow> (error + 'a) \<times> Connection \<Rightarrow> bool" where
  "kept c rc =
     (Connection.serverVersion (snd rc) = Connection.serverVersion c \<and>
      capabilities (snd rc) = capabilities c)"

section \<open>States reached by successful steps\<close>

lemma after_read_simps [simp]:
  "conn (after_read c) = conn c"
  "state (after_read c) = state c"
  "Connection.serverVersion (after_read c) = Connection.serverVersion c"
  "capabilities (after_read c) = capabilities c"
  "config (after_read c) = config c"
  "timedOut (after_read c) = timedOut c"
  "trace (after_read c) = trace c"
  "sendq (after_read c) = sendq c"
  "dialq (after_read c) = dialq c"
  "inbox (after_read c) = tl (inbox c)"
  "lessThan57 (after_read c) = lessThan57 c"
  by (simp_all add: after_read_def log_op_def lessThan57_def)

lemma after_reads_simps [simp]:
  "conn ((after_read ^^ n) c) = conn c"
  "state ((after_read ^^ n) c) = state c"
  "Connection.serverVersion ((after_read ^^ n) c) = Connection.serverVersion c"
  "capabilities ((after_read ^^ n) c) = capabilities c"
  "config ((after_read ^^ n) c) = config c"
  "timedOut ((after_read ^^ n) c) = timedOut c"
  "trace ((after_read ^^ n) c) = trace c"
  "sendq ((after_read ^^ n) c) = sendq c"
  "dialq ((after_read ^^ n) c) = dialq c"
  "inbox ((after_read ^^ n) c) = drop n (inbox c)"
  "lessThan57 ((after_read ^^ n) c) = lessThan57 c"
  by (induction n; simp add: drop_Suc tl_drop)+

lemma sent_simps [simp]:
  "conn (sent q d c) = conn c"
  "state (sent q d c) = state c"
  "Connection.serverVersion (sent q d c) = Connection.serverVersion c"
  "capabilities (sent q d c) = capabilities c"
  "config (sent q d c) = config c"
  "timedOut (sent q d c) = timedOut c"
  "trace (sent q d c) = trace c"
  "inbox (sent q d c) = inbox c"
  "dialq (sent q d c) = dialq c"
  "sendq (sent q d c) = tl (sendq c)"
  "lessThan57 (sent q d c) = lessThan57 c"
  by (simp_all add: sent_def log_op_def lessThan57_def)

lemma closed_simps [simp]:
  "conn (closed k c) = Some (k\<lparr>sock_open := False\<rparr>)"
  "state (closed k c) = CLOSED"
  "Connection.serverVersion (closed k c) = Connection.serverVersion c"
  "capabilities (closed k c) = capabilities c"
  "config (closed k c) = config c"
  "timedOut (closed k c) = timedOut c"
  "trace (closed k c) = trace c @ [CLOSING, CLOSED]"
  "inbox (closed k c) = inbox c"
  "ops (closed k c) = ops c @ [SockClose]"
  by (simp_all add: closed_def set_state_def log_op_def)

lemma send_sent: "send_ok c \<Longrightarrow> send data q c = (Inr (), sent q data c)"
  by (auto simp: send_ok_def send_def sent_def log_op_def Let_def
      split: option.splits list.splits)

lemma close_open_socket:
  "conn c = Some k \<Longrightarrow> sock_open k \<Longrightarrow> close c = (Inr (), closed k c)"
  by (simp add: close_def conn_close_def closed_def set_state_def log_op_def Let_def)

lemma nextPacket_packet:
  "conn c = Some k \<Longrightarrow> sock_open k \<Longrightarrow> inbox c = RdPacket p # rest \<Longrightarrow> ptype p \<noteq> ERR
   \<Longrightarrow> nextPacket cd c = (Inr p, after_read c)"
  by (simp add: nextPacket_def after_read_def log_op_def Let_def)

text \<open>The field loop on a run of packets that all parse.\<close>

lemma readFields_packets:
  "conn c = Some k \<Longrightarrow> sock_open k \<Longrightarrow> inbox c = map RdPacket ps @ tail
   \<Longrightarrow> \<forall>p\<in>set ps. ptype p \<noteq> ERR
   \<Longrightarrow> list_all2 (\<lambda>p f. parseField cd (body p) = Inr f) ps fvals
   \<Longrightarrow> readFields cd (length ps) fs c = (Inr (fs @ fvals), (after_read ^^ length ps) c)"
proof (induction ps arbitrary: c fs fvals)
  case Nil
  then show ?case by simp
next
  case (Cons p ps)
  from Cons.prems(5) obtain f fvals' where fv: "fvals = f # fvals'"
    and pf: "parseField cd (body p) = Inr f"
    and rest: "list_all2 (\<lambda>p f. parseField cd (body p) = Inr f) ps fvals'"
    by (auto simp: list_all2_Cons1)
  have np: "nextPacket cd c = (Inr p, after_read c)"
    using Cons.prems by (intro nextPacket_packet [where rest = "map RdPacket ps @ tail"]) auto
  have "readFields cd (length ps) (fs @ [f]) (after_read c)
        = (Inr ((fs @ [f]) @ fvals'), (after_read ^^ length ps) (after_read c))"
    using Cons.prems rest by (intro Cons.IH) auto
  then show ?case
    using np pf fv by (simp add: funpow_swap1)
qed

text \<open>The row loop on a run of rows closed by an \<open>EOF\<close> packet.\<close>

lemma readRows_packets:
  "conn c = Some k \<Longrightarrow> sock_open k \<Longrightarrow> inbox c = map RdPacket ps @ RdPacket eof # tail
   \<Longrightarrow> \<forall>p\<in>set ps. ptype p \<noteq> ERR \<and> ptype p \<noteq> EOF
   \<Longrightarrow> ptype eof = EOF
   \<Longrightarrow> list_all2 (\<lambda>p r. parseRow cd (body p) fs = Inr r) ps rvals
   \<Longrightarrow> readRows cd fs rs c = (Inr (rs @ rvals), (after_read ^^ Suc (length ps)) c)"
proof (induction ps arbitrary: c rs rvals)
  case Nil
  have "nextPacket cd c = (Inr eof, after_read c)"
    using Nil.prems by (intro nextPacket_packet [where rest = tail]) auto
  then show ?case
    using Nil.prems by (subst readRows.simps) simp
next
  case (Cons p ps)
  from Cons.prems(6) obtain r rvals' where rv: "rvals = r # rvals'"
    and pr: "parseRow cd (body p) fs = Inr r"
    and rest: "list_all2 (\<lambda>p r. parseRow cd (body p) fs = Inr r) ps rvals'"
    by (auto simp: list_all2_Cons1)
  have np: "nextPacket cd c = (Inr p, after_read c)"
    using Cons.prems
    by (intro nextPacket_packet [where rest = "map RdPacket ps @ RdPacket eof # tail"]) auto
  have "readRows cd fs (rs @ [r]) (after_read c)
        = (Inr ((rs @ [r]) @ rvals'), (after_read ^^ Suc (length ps)) (after_read c))"
    using Cons.prems rest by (intro Cons.IH) auto
  then show ?case
    using np pr rv Cons.prems(4) by (subst readRows.simps) (simp add: funpow_swap1)
qed

text \<open>
  A result set up to the end of its field list: what remains of \<open>execute\<close> is the
  legacy packet and the row loop.
\<close>

lemma readResponse_fields:
  assumes "conn c = Some k" "sock_open k"
    and "inbox c = RdPacket first # map RdPacket fps @ tail"
    and "ptype first \<noteq> OK" "ptype first \<noteq> ERR"
    and "readEncodedLen (body first) = Inr (length fps, b1)"
    and "\<forall>p\<in>set fps. ptype p \<noteq> ERR"
    and "list_all2 (\<lambda>p f. parseField cd (body p) = Inr f) fps fs"
  shows "readResponse cd c =
     (case legacyEof cd ((after_read ^^ Suc (length fps)) c) of
        (Inl e, c3) \<Rightarrow> (Inl e, c3)
      | (Inr u, c3) \<Rightarrow> apfst (map_sum id (result_set fs)) (readRows cd fs [] c3))"
proof -
  have n: "nextPacket cd c = (Inr first, after_read c)"
    using assms(1-3,5) by (intro nextPacket_packet [where rest = "map RdPacket fps @ tail"]) auto
  have f: "readFields cd (length fps) [] (after_read c)
           = (Inr ([] @ fs), (after_read ^^ length fps) (after_read c))"
    using assms(1-3,7,8) by (intro readFields_packets [where tail = tail]) auto
  show ?thesis
    unfolding readResponse_def
    using assms(4,6) n f
    by (simp add: funpow_swap1 split: prod.splits sum.splits)
qed

lemma execute_sent:
  "state c = CONNECTED \<Longrightarrow> buildQuery cd sql params = Inr data \<Longrightarrow> send_ok c
   \<Longrightarrow> execute cd sql params c = readResponse cd (sent 0 data c)"
  by (simp add: execute_def send_sent)

lemma send_ok_conn: "send_ok c \<Longrightarrow> \<exists>k. conn c = Some k \<and> sock_open k"
  by (auto simp: send_ok_def split: option.splits)

section \<open>The version policy\<close>

text \<open>
  C3: \<open>lessThan57\<close> holds for \<open>5.6.10\<close>, fails for \<open>5.7.0\<close>, holds for
  \<open>5.5.64-MariaDB-1~trusty\<close> (second segment \<open>MariaDB\<close>: the first segment is compared)
  and fails for \<open>5.5.5-10.4.10-MariaDB-1:10.4.10+maria~bionic\<close> (another string with
  \<open>MariaDB\<close> in it). The comparison is the one of strings, not of numbers: it holds
  for \<open>5.10.2\<close> as well. The other fields of the connection do not matter.
\<close>

theorem lessThan57_versions:
  "lessThan57 (c\<lparr>serverVersion := ''5.6.10''\<rparr>)
   \<and> \<not> lessThan57 (c\<lparr>serverVersion := ''5.7.0''\<rparr>)
   \<and> lessThan57 (c\<lparr>serverVersion := ''5.5.64-MariaDB-1~trusty''\<rparr>)
   \<and> \<not> lessThan57 (c\<lparr>serverVersion := ''5.5.5-10.4.10-MariaDB-1:10.4.10+maria~bionic''\<rparr>)
   \<and> lessThan57 (c\<lparr>serverVersion := ''5.10.2''\<rparr>)"
  by (simp add: lessThan57_def at_index_def)

section \<open>Result sets\<close>

text \<open>
  C1: a result-set response. The connection is \<open>CONNECTED\<close> and the query is sent.
  The first packet is neither \<open>OK\<close> nor \<open>ERR\<close> and its first length-encoded integer
  is the number of the packets \<open>fps\<close> that follow; each of them is parsed by
  \<open>parseField\<close>, giving \<open>fs\<close> in arrival order. After the one packet that a server
  below 5.7 adds (\<open>legacy\<close>, see C4), the packets \<open>rps\<close>, none of them \<open>EOF\<close>, are
  each decoded by \<open>parseRow\<close> with \<open>fs\<close>, giving \<open>rs\<close> in order, and the first
  \<open>EOF\<close> packet ends the loop. Then \<open>execute\<close> returns \<open>rows = rs\<close> and
  \<open>fields = fs\<close> without \<open>affectedRows\<close> and \<open>lastInsertId\<close>; what follows the \<open>EOF\<close>
  packet is left unread, and the connection stays \<open>CONNECTED\<close>.
\<close>

theorem execute_result_set:
  assumes "state c = CONNECTED" "buildQuery cd sql params = Inr data" "send_ok c"
    and "inbox c = RdPacket first # map RdPacket fps @ map RdPacket legacy @ map RdPacket rps
                     @ RdPacket eof # tail"
    and "ptype first \<noteq> OK" "ptype first \<noteq> ERR"
    and "readEncodedLen (body first) = Inr (length fps, b1)"
    and "\<forall>p\<in>set fps. ptype p \<noteq> ERR"
    and "list_all2 (\<lambda>p f. parseField cd (body p) = Inr f) fps fs"
    and "length legacy = (if lessThan57 c then 1 else 0)"
    and "\<forall>p\<in>set legacy. ptype p \<noteq> ERR"
    and "\<forall>p\<in>set rps. ptype p \<noteq> ERR \<and> ptype p \<noteq> EOF"
    and "list_all2 (\<lambda>p r. parseRow cd (body p) fs = Inr r) rps rs"
    and "ptype eof = EOF"
  shows "fst (execute cd sql params c)
           = Inr \<lparr>affectedRows = None, lastInsertId = None, fields' = Some fs, rows = Some rs\<rparr>
         \<and> inbox (snd (execute cd sql params c)) = tail
         \<and> state (snd (execute cd sql params c)) = CONNECTED"
proof -
  let ?c1 = "sent 0 data c"
  let ?c3 = "(after_read ^^ Suc (length fps)) ?c1"
  let ?rest = "map RdPacket rps @ RdPacket eof # tail"
  from assms(3) obtain k where k: "conn c = Some k" "sock_open k"
    using send_ok_conn by blast
  have e: "execute cd sql params c =
     (case legacyEof cd ?c3 of
        (Inl e, c4) \<Rightarrow> (Inl e, c4)
      | (Inr u, c4) \<Rightarrow> apfst (map_sum id (result_set fs)) (readRows cd fs [] c4))"
    unfolding execute_sent [OF assms(1-3)]
    using k assms(4-9)
    by (intro readResponse_fields [where tail = "map RdPacket legacy @ ?rest" and k = k]) auto
  have i3: "inbox ?c3 = map RdPacket legacy @ ?rest"
    using assms(4) by (simp add: tl_drop)
  have "\<exists>c4. legacyEof cd ?c3 = (Inr (), c4) \<and> conn c4 = Some k \<and> inbox c4 = ?rest
           \<and> state c4 = CONNECTED"
  proof (cases "lessThan57 c")
    case True
    with assms(10) obtain x where x: "legacy = [x]"
      by (cases legacy) auto
    have "nextPacket cd ?c3 = (Inr x, after_read ?c3)"
      using k i3 x assms(11) by (intro nextPacket_packet [where rest = ?rest]) auto
    then show ?thesis
      using True k i3 x assms(1) by (simp add: legacyEof_def)
  next
    case False
    with assms(10) have "legacy = []" by simp
    then show ?thesis
      using False k i3 assms(1) by (simp add: legacyEof_def)
  qed
  then obtain c4 where c4: "legacyEof cd ?c3 = (Inr (), c4)" "conn c4 = Some k"
    "inbox c4 = ?rest" "state c4 = CONNECTED"
    by blast
  have "readRows cd fs [] c4 = (Inr ([] @ rs), (after_read ^^ Suc (length rps)) c4)"
    using c4(2) k(2) c4(3) assms(12,14,13) by (rule readRows_packets)
  then show ?thesis
    using e c4 by (simp add: result_set_def)
qed

theorem execute_result_set_witness:
  "fst (execute (sample_codec ''5.6.10'') ''SELECT a, b FROM t'' None
         (connected_to ''5.6.10''
            [RdPacket (packet RESULT [2]),
             RdPacket (packet RESULT [0x61]), RdPacket (packet RESULT [0x62]),
             RdPacket (packet EOF [0xfe]),
             RdPacket (packet RESULT [1, 2]), RdPacket (packet RESULT [3, 4]),
             RdPacket (packet EOF [0xfe])]))
     = Inr \<lparr>affectedRows = None, lastInsertId = None,
            fields' = Some [[0x61], [0x62]],
            rows = Some [([1, 2], [[0x61], [0x62]]), ([3, 4], [[0x61], [0x62]])]\<rparr>"
  using execute_result_set
    [of "connected_to ''5.6.10''
            [RdPacket (packet RESULT [2]),
             RdPacket (packet RESULT [0x61]), RdPacket (packet RESULT [0x62]),
             RdPacket (packet EOF [0xfe]),
             RdPacket (packet RESULT [1, 2]), RdPacket (packet RESULT [3, 4]),
             RdPacket (packet EOF [0xfe])]"
        "sample_codec ''5.6.10''" "''SELECT a, b FROM t''" None
        "3 # map of_char ''SELECT a, b FROM t''"
        "packet RESULT [2]" "[packet RESULT [0x61], packet RESULT [0x62]]"
        "[packet EOF [0xfe]]"
        "[packet RESULT [1, 2], packet RESULT [3, 4]]" "packet EOF [0xfe]" "[]"
        "\<lparr>buffer = [2], pos = 1\<rparr>"
        "[[0x61], [0x62]]" "[([1, 2], [[0x61], [0x62]]), ([3, 4], [[0x61], [0x62]])]"]
  by (simp add: connected_to_def newConnection_def sample_codec_def packet_def send_ok_def
      readEncodedLen_def readUint8_def lessThan57_def)

text \<open>
  C4: the legacy packet. After the field list of a result set, when \<open>lessThan57\<close>
  holds and the next packet \<open>x\<close> is returned by \<open>nextPacket\<close>, the row loop starts on
  what follows \<open>x\<close>: exactly one packet was consumed, and it is not decoded. When
  \<open>lessThan57\<close> does not hold, the row loop starts on what follows the field list.
\<close>

theorem execute_legacy_eof:
  assumes "state c = CONNECTED" "buildQuery cd sql params = Inr data" "send_ok c"
    and "inbox c = RdPacket first # map RdPacket fps @ tail"
    and "ptype first \<noteq> OK" "ptype first \<noteq> ERR"
    and "readEncodedLen (body first) = Inr (length fps, b1)"
    and "\<forall>p\<in>set fps. ptype p \<noteq> ERR"
    and "list_all2 (\<lambda>p f. parseField cd (body p) = Inr f) fps fs"
  shows "(lessThan57 c \<longrightarrow>
            (\<forall>x tail'. tail = RdPacket x # tail' \<and> ptype x \<noteq> ERR \<longrightarrow>
               inbox ((after_read ^^ (length fps + 2)) (sent 0 data c)) = tail' \<and>
               execute cd sql params c =
                 apfst (map_sum id (result_set fs))
                   (readRows cd fs [] ((after_read ^^ (length fps + 2)) (sent 0 data c)))))
       \<and> (\<not> lessThan57 c \<longrightarrow>
            inbox ((after_read ^^ (length fps + 1)) (sent 0 data c)) = tail \<and>
            execute cd sql params c =
              apfst (map_sum id (result_set fs))
                (readRows cd fs [] ((after_read ^^ (length fps + 1)) (sent 0 data c))))"
proof -
  let ?c3 = "(after_read ^^ Suc (length fps)) (sent 0 data c)"
  from assms(3) obtain k where k: "conn c = Some k" "sock_open k"
    using send_ok_conn by blast
  have e: "execute cd sql params c =
     (case legacyEof cd ?c3 of
        (Inl e, c4) \<Rightarrow> (Inl e, c4)
      | (Inr u, c4) \<Rightarrow> apfst (map_sum id (result_set fs)) (readRows cd fs [] c4))"
    unfolding execute_sent [OF assms(1-3)]
    using k assms(4-9)
    by (intro readResponse_fields [where tail = tail and k = k]) auto
  have i3: "inbox ?c3 = tail"
    using assms(4) by (simp add: tl_drop)
  have old: "inbox (after_read ?c3) = tail' \<and>
             legacyEof cd ?c3 = (Inr (), after_read ?c3)"
    if "lessThan57 c" "tail = RdPacket x # tail'" "ptype x \<noteq> ERR" for x tail'
  proof -
    have "nextPacket cd ?c3 = (Inr x, after_read ?c3)"
      using k i3 that by (intro nextPacket_packet [where rest = tail']) auto
    then show ?thesis
      using that i3 by (simp add: legacyEof_def)
  qed
  have new: "legacyEof cd ?c3 = (Inr (), ?c3)" if "\<not> lessThan57 c"
    using that by (simp add: legacyEof_def)
  have two: "(after_read ^^ (length fps + 2)) (sent 0 data c) = after_read ?c3"
    by simp
  show ?thesis
    unfolding two using e old new i3 by (auto simp del: funpow.simps)
qed

theorem execute_legacy_eof_witness:
  "fst (execute (sample_codec ''5.6.10'') ''SELECT a FROM t'' None
          (connected_to ''5.6.10''
             [RdPacket (packet RESULT [1]), RdPacket (packet RESULT [0x61]),
              RdPacket (packet RESULT [9, 9]), RdPacket (packet RESULT [1]),
              RdPacket (packet EOF [0xfe])]))
     = Inr (result_set [[0x61]] [([1], [[0x61]])])
   \<and> fst (execute (sample_codec ''8.0.21'') ''SELECT a FROM t'' None
          (connected_to ''8.0.21''
             [RdPacket (packet RESULT [1]), RdPacket (packet RESULT [0x61]),
              RdPacket (packet RESULT [9, 9]), RdPacket (packet RESULT [1]),
              RdPacket (packet EOF [0xfe])]))
     = Inr (result_set [[0x61]] [([9, 9], [[0x61]]), ([1], [[0x61]])])"
proof -
  let ?ib = "[RdPacket (packet RESULT [1]), RdPacket (packet RESULT [0x61]),
              RdPacket (packet RESULT [9, 9]), RdPacket (packet RESULT [1]),
              RdPacket (packet EOF [0xfe])]"
  let ?data = "3 # map of_char ''SELECT a FROM t''"
  note defs = connected_to_def newConnection_def sample_codec_def packet_def send_ok_def
      readEncodedLen_def readUint8_def lessThan57_def at_index_def
  note run = readRows.simps nextPacket_def after_read_def sent_def log_op_def timeoutMs_def
      sample_config_def Let_def
  have old: "lessThan57 (connected_to ''5.6.10'' ?ib)"
    and new: "\<not> lessThan57 (connected_to ''8.0.21'' ?ib)"
    by (simp_all add: defs)
  have "execute (sample_codec ''5.6.10'') ''SELECT a FROM t'' None (connected_to ''5.6.10'' ?ib) =
          apfst (map_sum id (result_set [[0x61]]))
            (readRows (sample_codec ''5.6.10'') [[0x61]] []
               ((after_read ^^ (length [packet RESULT [0x61]] + 2))
                  (sent 0 ?data (connected_to ''5.6.10'' ?ib))))"
    using old execute_legacy_eof
      [of "connected_to ''5.6.10'' ?ib" "sample_codec ''5.6.10''" "''SELECT a FROM t''" None
          ?data "packet RESULT [1]" "[packet RESULT [0x61]]"
          "[RdPacket (packet RESULT [9, 9]), RdPacket (packet RESULT [1]),
            RdPacket (packet EOF [0xfe])]"
          "\<lparr>buffer = [1], pos = 1\<rparr>" "[[0x61]]"]
    by (simp add: defs)
  moreover
  have "execute (sample_codec ''8.0.21'') ''SELECT a FROM t'' None (connected_to ''8.0.21'' ?ib) =
          apfst (map_sum id (result_set [[0x61]]))
            (readRows (sample_codec ''8.0.21'') [[0x61]] []
               ((after_read ^^ (length [packet RESULT [0x61]] + 1))
                  (sent 0 ?data (connected_to ''8.0.21'' ?ib))))"
    using new execute_legacy_eof
      [of "connected_to ''8.0.21'' ?ib" "sample_codec ''8.0.21''" "''SELECT a FROM t''" None
          ?data "packet RESULT [1]" "[packet RESULT [0x61]]"
          "[RdPacket (packet RESULT [9, 9]), RdPacket (packet RESULT [1]),
            RdPacket (packet EOF [0xfe])]"
          "\<lparr>buffer = [1], pos = 1\<rparr>" "[[0x61]]"]
    by (simp add: defs)
  ultimately show ?thesis
    by (simp add: defs run)
qed

section \<open>Responses without rows\<close>

text \<open>
  C2: an \<open>OK\<close> response. The connection is \<open>CONNECTED\<close> and the query is sent; the
  first packet is classified \<open>OK\<close>. One byte is skipped, \<open>affectedRows\<close> is the
  length-encoded integer found there and \<open>lastInsertId\<close> the one that follows it.
  \<open>execute\<close> returns these two and neither rows nor fields, after this one read.
\<close>

theorem execute_ok:
  assumes "state c = CONNECTED" "buildQuery cd sql params = Inr data" "send_ok c"
    and "inbox c = RdPacket first # tail"
    and "ptype first = OK"
    and "readEncodedLen (skip 1 (body first)) = Inr (a, b1)"
    and "readEncodedLen b1 = Inr (l, b2)"
  shows "execute cd sql params c =
           (Inr \<lparr>affectedRows = Some a, lastInsertId = Some l, fields' = None, rows = None\<rparr>,
            after_read (sent 0 data c))"
proof -
  from assms(3) obtain k where k: "conn c = Some k" "sock_open k"
    using send_ok_conn by blast
  have n: "nextPacket cd (sent 0 data c) = (Inr first, after_read (sent 0 data c))"
    using k assms(4,5) by (intro nextPacket_packet [where rest = tail]) auto
  show ?thesis
    unfolding execute_sent [OF assms(1-3)] readResponse_def using assms(5,6,7) n by simp
qed

theorem execute_ok_witness:
  "fst (execute (sample_codec ''8.0.21'') ''INSERT INTO t VALUES (1)'' None
          (connected_to ''8.0.21'' [RdPacket (packet OK [0x00, 0x01, 0x2a, 0x02, 0x00])]))
     = Inr \<lparr>affectedRows = Some 1, lastInsertId = Some 42, fields' = None, rows = None\<rparr>"
  using execute_ok
    [of "connected_to ''8.0.21'' [RdPacket (packet OK [0x00, 0x01, 0x2a, 0x02, 0x00])]"
        "sample_codec ''8.0.21''" "''INSERT INTO t VALUES (1)''" None
        "3 # map of_char ''INSERT INTO t VALUES (1)''"
        "packet OK [0x00, 0x01, 0x2a, 0x02, 0x00]" "[]" 1
        "\<lparr>buffer = [0x00, 0x01, 0x2a, 0x02, 0x00], pos = 2\<rparr>" 42
        "\<lparr>buffer = [0x00, 0x01, 0x2a, 0x02, 0x00], pos = 3\<rparr>"]
  by (simp add: connected_to_def newConnection_def sample_codec_def packet_def send_ok_def
      readEncodedLen_def readUint8_def skip_def)

section \<open>The response timeout\<close>

lemma flag_ok_pure [simp]: "flag_ok c (r, c)"
  by (simp add: flag_ok_def)

lemma flag_ok_same: "timedOut (snd rc) = timedOut c \<Longrightarrow> flag_ok c rc"
  by (simp add: flag_ok_def)

lemma flag_ok_bind:
  assumes "flag_ok c (f c)"
    and "\<And>x c1. f c = (Inr x, c1) \<Longrightarrow> timedOut c1 = timedOut c \<Longrightarrow> flag_ok c1 (g x c1)"
  shows "flag_ok c (case f c of (Inl e, c1) \<Rightarrow> (Inl e, c1) | (Inr x, c1) \<Rightarrow> g x c1)"
proof (cases "f c")
  case (Pair r c1)
  show ?thesis
  proof (cases r)
    case (Inl e)
    then show ?thesis using assms(1) Pair by (simp add: flag_ok_def)
  next
    case (Inr x)
    show ?thesis
    proof (cases "timedOut c1 = timedOut c")
      case True
      with assms(2) [of x c1] Pair Inr show ?thesis by (simp add: flag_ok_def)
    next
      case False
      with assms(1) Pair Inr show ?thesis by (auto simp: flag_ok_def)
    qed
  qed
qed

lemma close_timedOut [simp]: "timedOut (snd (close c)) = timedOut c"
  by (simp add: close_def conn_close_def set_state_def log_op_def Let_def split: option.splits)

lemma close_then_throw_timedOut [simp]: "timedOut (snd (close_then_throw e c)) = timedOut c"
  using close_timedOut [of c]
  by (cases "close c") (auto simp: close_then_throw_def split: sum.splits)

lemma send_timedOut [simp]: "timedOut (snd (send d q c)) = timedOut c"
  by (simp add: send_def log_op_def Let_def split: option.splits list.splits)

lemma deno_connect_timedOut [simp]: "timedOut (snd (deno_connect h p c)) = timedOut c"
  by (simp add: deno_connect_def log_op_def Let_def split: option.splits list.splits)

lemma nextPacket_flag: "flag_ok c (nextPacket cd c)"
  by (auto simp: flag_ok_def nextPacket_def read_failed_def timeoutCallback_def timeout_error_def
      close_open_socket log_op_def Let_def
      split: option.splits list.splits rd_event.splits sum.splits)

lemma readFields_flag: "flag_ok c (readFields cd n fs c)"
proof (induction n arbitrary: fs c)
  case 0
  then show ?case by simp
next
  case (Suc n)
  have "flag_ok c
     (case nextPacket cd c of
        (Inl e, c1) \<Rightarrow> (Inl e, c1)
      | (Inr pk, c1) \<Rightarrow>
          (case parseField cd (body pk) of
             Inl e \<Rightarrow> (Inl e, c1)
           | Inr field \<Rightarrow> readFields cd n (fs @ [field]) c1))"
    by (rule flag_ok_bind [where f = "nextPacket cd"], rule nextPacket_flag)
      (simp add: Suc.IH split: sum.splits)
  then show ?case by simp
qed

lemma readRows_flag: "flag_ok c (readRows cd fs rs c)"
proof (induction cd fs rs c rule: readRows.induct)
  case (1 cd fs rs c)
  have "flag_ok c
     (case nextPacket cd c of
        (Inl e, c1) \<Rightarrow> (Inl e, c1)
      | (Inr receive, c1) \<Rightarrow>
          if ptype receive = EOF then (Inr rs, c1)
          else
            (case parseRow cd (body receive) fs of
               Inl e \<Rightarrow> (Inl e, c1)
             | Inr row \<Rightarrow> readRows cd fs (rs @ [row]) c1))"
  proof (rule flag_ok_bind [where f = "nextPacket cd"], rule nextPacket_flag)
    fix x c1
    assume np: "nextPacket cd c = (Inr x, c1)"
    show "flag_ok c1
        (if ptype x = EOF then (Inr rs, c1)
         else case parseRow cd (body x) fs of
                Inl e \<Rightarrow> (Inl e, c1)
              | Inr row \<Rightarrow> readRows cd fs (rs @ [row]) c1)"
    proof (cases "ptype x = EOF")
      case True
      then show ?thesis by simp
    next
      case False
      show ?thesis
      proof (cases "parseRow cd (body x) fs")
        case (Inl e)
        with False show ?thesis by simp
      next
        case (Inr row)
        have "flag_ok c1 (readRows cd fs (rs @ [row]) c1)"
          using np False Inr by (intro "1.IH") auto
        with False Inr show ?thesis by simp
      qed
    qed
  qed
  then show ?case by (subst readRows.simps)
qed

lemma legacyEof_flag: "flag_ok c (legacyEof cd c)"
proof (cases "lessThan57 c")
  case True
  have "flag_ok c
     (case nextPacket cd c of
        (Inl e, c1) \<Rightarrow> (Inl e, c1)
      | (Inr receive, c1) \<Rightarrow> (Inr (), c1))"
    by (rule flag_ok_bind [where f = "nextPacket cd"], rule nextPacket_flag) simp
  with True show ?thesis by (simp add: legacyEof_def)
next
  case False
  then show ?thesis by (simp add: legacyEof_def)
qed

lemma rows_flag:
  "flag_ok c (case readRows cd fs [] c of
                (Inl e, c4) \<Rightarrow> (Inl e, c4)
              | (Inr rs, c4) \<Rightarrow> (Inr (result_set fs rs), c4))"
  by (rule flag_ok_bind [where f = "readRows cd fs []"], rule readRows_flag) simp

lemma legacy_rows_flag:
  "flag_ok c (case legacyEof cd c of
                (Inl e, c3) \<Rightarrow> (Inl e, c3)
              | (Inr u, c3) \<Rightarrow>
                  (case readRows cd fs [] c3 of
                     (Inl e, c4) \<Rightarrow> (Inl e, c4)
                   | (Inr rs, c4) \<Rightarrow> (Inr (result_set fs rs), c4)))"
  by (rule flag_ok_bind [where f = "legacyEof cd"], rule legacyEof_flag) (rule rows_flag)

lemma fields_rows_flag:
  "flag_ok c (case readFields cd n [] c of
                (Inl e, c2) \<Rightarrow> (Inl e, c2)
              | (Inr fs, c2) \<Rightarrow>
                  (case legacyEof cd c2 of
                     (Inl e, c3) \<Rightarrow> (Inl e, c3)
                   | (Inr u, c3) \<Rightarrow>
                       (case readRows cd fs [] c3 of
                          (Inl e, c4) \<Rightarrow> (Inl e, c4)
                        | (Inr rs, c4) \<Rightarrow> (Inr (result_set fs rs), c4))))"
  by (rule flag_ok_bind [where f = "readFields cd n []"], rule readFields_flag)
    (rule legacy_rows_flag)

lemma readResponse_flag: "flag_ok c (readResponse cd c)"
  unfolding readResponse_def
  by (rule flag_ok_bind [where f = "nextPacket cd"], rule nextPacket_flag)
    (simp add: fields_rows_flag split: sum.splits)

lemma execute_flag: "flag_ok c (execute cd sql params c)"
proof (cases "state c = CONNECTED")
  case False
  then show ?thesis by (simp add: execute_def)
next
  case True
  show ?thesis
  proof (cases "buildQuery cd sql params")
    case (Inl e)
    with True show ?thesis by (simp add: execute_def)
  next
    case (Inr data)
    show ?thesis
    proof (cases "send data 0 c")
      case (Pair r c1)
      have t1: "timedOut c1 = timedOut c"
        using send_timedOut [of data 0 c] Pair by simp
      show ?thesis
      proof (cases r)
        case (Inl e)
        have "flag_ok c (close_then_throw e c1 :: (error + ('a, 'b) ExecuteResult) \<times> Connection)"
          using t1 by (intro flag_ok_same) simp
        then show ?thesis
          using True Inr Pair Inl t1 by (simp add: execute_def flag_ok_def)
      next
        case (Inr u)
        have "flag_ok c1 (readResponse cd c1 :: (error + ('a, 'b) ExecuteResult) \<times> Connection)"
          by (rule readResponse_flag)
        then show ?thesis
          using True \<open>buildQuery cd sql params = Inr data\<close> Pair Inr t1
          by (simp add: execute_def flag_ok_def)
      qed
    qed
  qed
qed

lemma query_flag: "flag_ok c (query cd sql params c)"
  using execute_flag [of c cd sql params]
  by (cases "execute cd sql params c")
    (auto simp: query_def flag_ok_def split: sum.splits option.splits)

lemma set_state_flag:
  "flag_ok (set_state v c) rc \<Longrightarrow> flag_ok c rc"
  by (simp add: flag_ok_def set_state_def)

lemma set_state_timedOut [simp]: "timedOut (set_state v c) = timedOut c"
  by (simp add: set_state_def)

lemma connect_reply_flag: "flag_ok c (connect_reply cd c)"
  unfolding connect_reply_def
proof (rule flag_ok_bind [where f = "nextPacket cd"], rule nextPacket_flag)
  fix x c1
  have ex: "flag_ok c1
              (case execute cd sql None (set_state CONNECTED c1) of
                 (Inl e, c3) \<Rightarrow> (Inl e, c3)
               | (Inr result, c3) \<Rightarrow> (Inr (), c3))" for sql
    by (rule set_state_flag [where v = CONNECTED],
        rule flag_ok_bind [where f = "execute cd sql None"], rule execute_flag) simp
  show "flag_ok c1
     (case readUint8 (body x) of
        Inl e \<Rightarrow> (Inl e, c1)
      | Inr (header, b1) \<Rightarrow>
          if header = 0xff then
            (case parseError cd b1 c1 of
               Inl e \<Rightarrow> (Inl e, c1)
             | Inr err \<Rightarrow> close_then_throw (Error (message err)) c1)
          else
            (let c2 = set_state CONNECTED c1 in
             case charset (config c2) of
               None \<Rightarrow> (Inr (), c2)
             | Some cs \<Rightarrow>
                 if cs = [] then (Inr (), c2)
                 else
                   (case execute cd (''SET NAMES '' @ cs) None c2 of
                      (Inl e, c3) \<Rightarrow> (Inl e, c3)
                    | (Inr result, c3) \<Rightarrow> (Inr (), c3))))"
    using ex [of "''SET NAMES '' @ cs" for cs]
    by (auto simp: Let_def split: sum.splits option.splits intro: flag_ok_same)
qed

lemma flag_ok_from: "flag_ok c1 rc \<Longrightarrow> timedOut c1 = timedOut c \<Longrightarrow> flag_ok c rc"
  by (simp add: flag_ok_def)

lemma connect_try_flag: "flag_ok c (connect_try cd c)"
  unfolding connect_try_def
proof (rule flag_ok_bind [where f = "nextPacket cd"], rule nextPacket_flag)
  fix x c1
  have after: "flag_ok c1
      (case send data 1 c1 of
         (Inl e, c2) \<Rightarrow> (Inl e, c2)
       | (Inr u, c2) \<Rightarrow>
           connect_reply cd
             ((set_state CONNECTING c2)
                \<lparr>serverVersion := HandshakePacket.serverVersion hp,
                 capabilities := serverCapabilities hp\<rparr>))"
    for data and hp :: HandshakePacket
  proof (cases "send data 1 c1")
    case (Pair r c2)
    have t: "timedOut c2 = timedOut c1"
      using send_timedOut [of data 1 c1] unfolding Pair by simp
    show ?thesis
    proof (cases r)
      case (Inl e)
      with Pair t show ?thesis by (simp add: flag_ok_same)
    next
      case (Inr u)
      have "flag_ok ((set_state CONNECTING c2)
                \<lparr>serverVersion := HandshakePacket.serverVersion hp,
                 capabilities := serverCapabilities hp\<rparr>)
              (connect_reply cd ((set_state CONNECTING c2)
                \<lparr>serverVersion := HandshakePacket.serverVersion hp,
                 capabilities := serverCapabilities hp\<rparr>))"
        by (rule connect_reply_flag)
      then show ?thesis
        using Pair Inr t by (simp add: flag_ok_def)
    qed
  qed
  show "flag_ok c1
     (case parseHandshake cd (body x) of
        Inl e \<Rightarrow> (Inl e, c1)
      | Inr handshakePacket \<Rightarrow>
          (case buildAuth cd handshakePacket
                  \<lparr>ausername = (case username (config c1) of None \<Rightarrow> [] | Some u \<Rightarrow> u),
                   apassword = password (config c1), adb = db (config c1)\<rparr> of
             Inl e \<Rightarrow> (Inl e, c1)
           | Inr data \<Rightarrow>
               (case send data 1 c1 of
                  (Inl e, c2) \<Rightarrow> (Inl e, c2)
                | (Inr u, c2) \<Rightarrow>
                    connect_reply cd
                      ((set_state CONNECTING c2)
                         \<lparr>serverVersion := HandshakePacket.serverVersion handshakePacket,
                          capabilities := serverCapabilities handshakePacket\<rparr>))))"
    using after by (simp split: sum.splits)
qed

lemma connect_flag: "flag_ok c (connect cd c)"
proof (cases "deno_connect (hostname (config c))
                (case port (config c) of None \<Rightarrow> 3306 | Some p \<Rightarrow> p) c")
  case (Pair r c1)
  have t1: "timedOut c1 = timedOut c"
    using deno_connect_timedOut
      [of "hostname (config c)" "case port (config c) of None \<Rightarrow> 3306 | Some p \<Rightarrow> p" c] Pair
    by simp
  show ?thesis
  proof (cases r)
    case (Inl e)
    with Pair t1 show ?thesis
      by (simp add: connect_def connect_impl_def flag_ok_same)
  next
    case (Inr u)
    obtain r2 c2 where tr: "connect_try cd c1 = (r2, c2)"
      by (cases "connect_try cd c1")
    have f2: "flag_ok c1 (r2, c2)"
      using connect_try_flag [of c1 cd] tr by simp
    have "flag_ok c1
       (case (r2, c2) of
          (Inl e, c2) \<Rightarrow>
            (if state c2 \<noteq> CLOSED then close_then_throw e c2 else (Inl e, c2))
        | (Inr u', c2) \<Rightarrow> (Inr (), c2))"
      using f2 by (cases r2) (auto simp: flag_ok_def)
    then show ?thesis
      using Pair Inr tr t1 by (simp add: connect_def connect_impl_def flag_ok_def)
  qed
qed

lemma nextPacket_arms_timer:
  "conn c = Some k \<Longrightarrow>
   \<exists>rest. ops (snd (nextPacket cd c)) = ops c @ SetTimeout (timeoutMs (config c)) # SockRead # rest"
  by (auto simp: nextPacket_def read_failed_def timeoutCallback_def close_then_throw_def
      close_def conn_close_def set_state_def log_op_def Let_def
      split: option.splits list.splits rd_event.splits sum.splits)

lemma nextPacket_timeout:
  "conn c = Some k \<Longrightarrow> sock_open k \<Longrightarrow> inbox c = [] \<or> hd (inbox c) = RdTimeout \<Longrightarrow>
   fst (nextPacket cd c) = Inl timeout_error \<and> state (snd (nextPacket cd c)) = CLOSED
   \<and> timedOut (snd (nextPacket cd c))
   \<and> conn (snd (nextPacket cd c)) = Some (k\<lparr>sock_open := False\<rparr>)"
  by (cases "inbox c")
    (auto simp: nextPacket_def read_failed_def timeoutCallback_def timeout_error_def
      close_open_socket log_op_def Let_def)

lemma nextPacket_failure_flagged:
  "conn c = Some k \<Longrightarrow> timedOut c \<Longrightarrow> \<not> sock_open k \<or> inbox c = RdFail e # rest \<Longrightarrow>
   nextPacket cd c =
     (Inl timeout_error,
      (log_op SockRead (log_op (SetTimeout (timeoutMs (config c))) c))
        \<lparr>inbox := if sock_open k then rest else inbox c\<rparr>)"
  by (auto simp: nextPacket_def read_failed_def timeout_error_def log_op_def Let_def)

text \<open>The definitions that a run on concrete values unfolds.\<close>

lemmas run_defs =
  execute_def query_def readResponse_def send_def nextPacket_def read_failed_def
  timeoutCallback_def close_then_throw_def close_def conn_close_def legacyEof_def
  connect_def connect_impl_def connect_try_def connect_reply_def deno_connect_def
  set_state_def log_op_def timeoutMs_def readEncodedLen_def readUint8_def readUints_def skip_def
  connected_to_def newConnection_def sample_codec_def sample_config_def packet_def
  lessThan57_def at_index_def BadResource_def Let_def

text \<open>
  The timer that fires during an operation. When nothing arrives at a packet read on an
  open socket, the callback sets the flag and closes, and \<open>nextPacket\<close> fails with
  \<open>ResponseTimeoutError\<close>, in state \<open>CLOSED\<close> with the socket closed. Whenever a read
  fails while the flag is set, the error thrown is this one and not the error of the read.
  Every packet read is preceded by the arming of the timer with \<open>config.timeout\<close>,
  30000 when it is absent or 0. An \<open>execute\<close>, \<open>query\<close> or \<open>connect\<close> during which
  the flag becomes set fails with \<open>ResponseTimeoutError\<close> and ends in state \<open>CLOSED\<close>.
  The error differs from those of the socket and from \<open>ReadError\<close>.
\<close>

lemma timeout_during_operation:
  "(conn c = Some k \<and> sock_open k \<and> (inbox c = [] \<or> hd (inbox c) = RdTimeout) \<longrightarrow>
      fst (nextPacket cd c) = Inl timeout_error
      \<and> state (snd (nextPacket cd c)) = CLOSED
      \<and> timedOut (snd (nextPacket cd c))
      \<and> conn (snd (nextPacket cd c)) = Some (k\<lparr>sock_open := False\<rparr>))
   \<and> (conn c = Some k \<and> timedOut c \<and> (\<not> sock_open k \<or> inbox c = RdFail e # rest) \<longrightarrow>
      fst (nextPacket cd c) = Inl timeout_error)
   \<and> (conn c = Some k \<longrightarrow>
      (\<exists>more. ops (snd (nextPacket cd c))
                = ops c @ SetTimeout (timeoutMs (config c)) # SockRead # more))
   \<and> (timeout (config c) = None \<longrightarrow> timeoutMs (config c) = 30000)
   \<and> (\<not> timedOut c \<and> timedOut (snd (execute cd sql params c)) \<longrightarrow>
      fst (execute cd sql params c) = Inl timeout_error
      \<and> state (snd (execute cd sql params c)) = CLOSED)
   \<and> (\<not> timedOut c \<and> timedOut (snd (query cd sql params c)) \<longrightarrow>
      fst (query cd sql params c) = Inl timeout_error
      \<and> state (snd (query cd sql params c)) = CLOSED)
   \<and> (\<not> timedOut c \<and> timedOut (snd (connect cd c)) \<longrightarrow>
      fst (connect cd c) = Inl timeout_error
      \<and> state (snd (connect cd c)) = CLOSED)
   \<and> timeout_error \<noteq> IOError m \<and> timeout_error \<noteq> ReadError m
   \<and> (timeout (config c) = Some ms \<and> ms \<noteq> 0 \<longrightarrow> timeoutMs (config c) = ms)"
proof -
  have a: "conn c = Some k \<and> sock_open k \<and> (inbox c = [] \<or> hd (inbox c) = RdTimeout) \<longrightarrow>
      fst (nextPacket cd c) = Inl timeout_error
      \<and> state (snd (nextPacket cd c)) = CLOSED
      \<and> timedOut (snd (nextPacket cd c))
      \<and> conn (snd (nextPacket cd c)) = Some (k\<lparr>sock_open := False\<rparr>)"
    using nextPacket_timeout [of c k cd] by blast
  have b: "conn c = Some k \<and> timedOut c \<and> (\<not> sock_open k \<or> inbox c = RdFail e # rest) \<longrightarrow>
      fst (nextPacket cd c) = Inl timeout_error"
    using nextPacket_failure_flagged [of c k e rest cd] by auto
  have d: "conn c = Some k \<longrightarrow>
      (\<exists>more. ops (snd (nextPacket cd c))
                = ops c @ SetTimeout (timeoutMs (config c)) # SockRead # more)"
    using nextPacket_arms_timer [of c k cd] by blast
  have t: "timeout (config c) = None \<longrightarrow> timeoutMs (config c) = 30000"
    by (simp add: timeoutMs_def)
  have x: "\<not> timedOut c \<and> timedOut (snd (execute cd sql params c)) \<longrightarrow>
      fst (execute cd sql params c) = Inl timeout_error
      \<and> state (snd (execute cd sql params c)) = CLOSED"
    using execute_flag [of c cd sql params] by (auto simp: flag_ok_def)
  have q: "\<not> timedOut c \<and> timedOut (snd (query cd sql params c)) \<longrightarrow>
      fst (query cd sql params c) = Inl timeout_error
      \<and> state (snd (query cd sql params c)) = CLOSED"
    using query_flag [of c cd sql params] by (auto simp: flag_ok_def)
  have n: "\<not> timedOut c \<and> timedOut (snd (connect cd c)) \<longrightarrow>
      fst (connect cd c) = Inl timeout_error
      \<and> state (snd (connect cd c)) = CLOSED"
    using connect_flag [of c cd] by (auto simp: flag_ok_def)
  have z: "timeout_error \<noteq> IOError m \<and> timeout_error \<noteq> ReadError m"
    by (simp add: timeout_error_def)
  have s: "timeout (config c) = Some ms \<and> ms \<noteq> 0 \<longrightarrow> timeoutMs (config c) = ms"
    by (simp add: timeoutMs_def)
  from a b d t x q n z s show ?thesis by blast
qed

lemma timeout_during_operation_example:
  "fst (execute (sample_codec ''8.0.21'') ''SELECT a FROM t'' None
          (connected_to ''8.0.21'' [RdPacket (packet RESULT [1]), RdTimeout]))
     = Inl (ResponseTimeoutError ''Connection read timed out'')
   \<and> state (snd (execute (sample_codec ''8.0.21'') ''SELECT a FROM t'' None
          (connected_to ''8.0.21'' [RdPacket (packet RESULT [1]), RdTimeout]))) = CLOSED
   \<and> fst (query (sample_codec ''8.0.21'') ''SELECT a FROM t'' None
          (connected_to ''8.0.21'' [])) = Inl (ResponseTimeoutError ''Connection read timed out'')
   \<and> fst (connect (sample_codec ''8.0.21'')
          (newConnection sample_config [RdPacket (packet RESULT [10])] [] []))
     = Inl (ResponseTimeoutError ''Connection read timed out'')
   \<and> state (snd (connect (sample_codec ''8.0.21'')
          (newConnection sample_config [RdPacket (packet RESULT [10])] [] []))) = CLOSED
   \<and> fst (nextPacket (sample_codec ''8.0.21'') (connected_to ''8.0.21'' [RdTimeout]))
     = Inl (ResponseTimeoutError ''Connection read timed out'')
   \<and> fst (nextPacket (sample_codec ''8.0.21'')
          ((connected_to ''8.0.21'' [RdFail (IOError ''connection reset'')])\<lparr>timedOut := True\<rparr>))
     = Inl (ResponseTimeoutError ''Connection read timed out'')"
  using
    timeout_during_operation
      [of "connected_to ''8.0.21'' [RdPacket (packet RESULT [1]), RdTimeout]"
          "\<lparr>sock_open = True\<rparr>" "sample_codec ''8.0.21''" "IOError []" "[]"
          "''SELECT a FROM t''" None]
    timeout_during_operation
      [of "connected_to ''8.0.21'' []"
          "\<lparr>sock_open = True\<rparr>" "sample_codec ''8.0.21''" "IOError []" "[]"
          "''SELECT a FROM t''" None]
    timeout_during_operation
      [of "newConnection sample_config [RdPacket (packet RESULT [10])] [] []"
          "\<lparr>sock_open = True\<rparr>" "sample_codec ''8.0.21''"]
    timeout_during_operation
      [of "connected_to ''8.0.21'' [RdTimeout]"
          "\<lparr>sock_open = True\<rparr>" "sample_codec ''8.0.21''"]
    timeout_during_operation
      [of "(connected_to ''8.0.21'' [RdFail (IOError ''connection reset'')])\<lparr>timedOut := True\<rparr>"
          "\<lparr>sock_open = True\<rparr>" "sample_codec ''8.0.21''" "IOError ''connection reset''" "[]"]
  by (simp add: run_defs timeout_error_def)

text \<open>
  C5: a read that fails while the flag is set. The flag is set by the callback and never
  cleared. The first \<open>connect\<close> times out: it fails with \<open>ResponseTimeoutError\<close> and
  the connection is \<open>CLOSED\<close>, flag set. A second \<open>connect\<close> goes well: the connection
  is \<open>CONNECTED\<close> on a new open socket, flag still set. The read of the next \<open>execute\<close>,
  armed with the configured 5000, fails with an error of the socket: \<open>execute\<close> fails
  with \<open>ResponseTimeoutError\<close>, yet nothing is closed and the timer is not cleared; the
  connection stays \<open>CONNECTED\<close> on the open socket. With the flag clear, the same read
  failure gives the error of the socket and the state \<open>CLOSED\<close>.
\<close>

theorem stale_timeout_flag:
  "fst (connect (sample_codec ''8.0.21'')
          (newConnection (sample_config\<lparr>timeout := Some 5000\<rparr>)
             [RdPacket (packet RESULT [10]), RdTimeout,
              RdPacket (packet RESULT [10]), RdPacket (packet OK [0]),
              RdFail (IOError ''connection reset'')] [] []))
     = Inl (ResponseTimeoutError ''Connection read timed out'')
   \<and> state timed_out_once = CLOSED \<and> timedOut timed_out_once
   \<and> fst (connect (sample_codec ''8.0.21'') timed_out_once) = Inr ()
   \<and> state reconnected = CONNECTED \<and> timedOut reconnected
   \<and> conn reconnected = Some \<lparr>sock_open = True\<rparr>
   \<and> inbox reconnected = [RdFail (IOError ''connection reset'')]
   \<and> fst (execute (sample_codec ''8.0.21'') ''SELECT 1'' None reconnected)
       = Inl (ResponseTimeoutError ''Connection read timed out'')
   \<and> state (snd (execute (sample_codec ''8.0.21'') ''SELECT 1'' None reconnected)) = CONNECTED
   \<and> conn (snd (execute (sample_codec ''8.0.21'') ''SELECT 1'' None reconnected))
       = Some \<lparr>sock_open = True\<rparr>
   \<and> ops (snd (execute (sample_codec ''8.0.21'') ''SELECT 1'' None reconnected))
       = ops reconnected @ [SockWrite 0 (3 # map of_char ''SELECT 1''), SetTimeout 5000, SockRead]
   \<and> fst (execute (sample_codec ''8.0.21'') ''SELECT 1'' None (reconnected\<lparr>timedOut := False\<rparr>))
       = Inl (IOError ''connection reset'')
   \<and> state (snd (execute (sample_codec ''8.0.21'') ''SELECT 1'' None
                      (reconnected\<lparr>timedOut := False\<rparr>))) = CLOSED"
  by (simp add: reconnected_def timed_out_once_def run_defs)

section \<open>Connecting\<close>

lemma dialed_simps [simp]:
  "conn (dialed c) = Some \<lparr>sock_open = True\<rparr>"
  "state (dialed c) = state c"
  "config (dialed c) = config c"
  "timedOut (dialed c) = timedOut c"
  "trace (dialed c) = trace c"
  "inbox (dialed c) = inbox c"
  "sendq (dialed c) = sendq c"
  by (simp_all add: dialed_def log_op_def)

lemma handshaken_simps [simp]:
  "conn (handshaken hp data c) = Some \<lparr>sock_open = True\<rparr>"
  "state (handshaken hp data c) = CONNECTING"
  "Connection.serverVersion (handshaken hp data c) = HandshakePacket.serverVersion hp"
  "capabilities (handshaken hp data c) = serverCapabilities hp"
  "config (handshaken hp data c) = config c"
  "timedOut (handshaken hp data c) = timedOut c"
  "trace (handshaken hp data c) = trace c @ [CONNECTING]"
  "inbox (handshaken hp data c) = tl (inbox c)"
  by (simp_all add: handshaken_def set_state_def)

lemma deno_connect_dialed:
  "dial_ok c \<Longrightarrow>
   deno_connect (hostname (config c)) (case port (config c) of None \<Rightarrow> 3306 | Some p \<Rightarrow> p) c
     = (Inr (), dialed c)"
  by (auto simp: dial_ok_def deno_connect_def dialed_def log_op_def Let_def
      split: list.splits option.splits)

text \<open>\<open>connect\<close> up to the assignment of the three fields.\<close>

lemma connect_handshake:
  assumes "dial_ok c" "write_ok c"
    and "inbox c = RdPacket hs # tail" "ptype hs \<noteq> ERR"
    and "parseHandshake cd (body hs) = Inr hp"
    and "buildAuth cd hp (auth_params c) = Inr data"
  shows "connect cd c =
     (case connect_reply cd (handshaken hp data c) of
        (Inl e, c2) \<Rightarrow> (if state c2 \<noteq> CLOSED then close_then_throw e c2 else (Inl e, c2))
      | (Inr u, c2) \<Rightarrow> (Inr (), c2))"
proof -
  have n: "nextPacket cd (dialed c) = (Inr hs, after_read (dialed c))"
    using assms(3,4) by (intro nextPacket_packet [where rest = tail and k = "\<lparr>sock_open = True\<rparr>"]) auto
  have s: "send data 1 (after_read (dialed c)) = (Inr (), sent 1 data (after_read (dialed c)))"
    using assms(2) by (intro send_sent) (simp add: send_ok_def write_ok_def)
  have "connect_try cd (dialed c) = connect_reply cd (handshaken hp data c)"
    using n s assms(5,6) by (simp add: connect_try_def handshaken_def auth_params_def)
  then show ?thesis
    using assms(1) by (simp add: connect_def connect_impl_def deno_connect_dialed)
qed

lemma connect_reply_accepted:
  assumes "conn c = Some k" "sock_open k"
    and "inbox c = RdPacket reply # tail" "ptype reply \<noteq> ERR"
    and "readUint8 (body reply) = Inr (header, b1)" "header \<noteq> 0xff"
    and "charset (config c) = None \<or> charset (config c) = Some []"
  shows "connect_reply cd c = (Inr (), set_state CONNECTED (after_read c))"
proof -
  have n: "nextPacket cd c = (Inr reply, after_read c)"
    using assms(1-4) by (intro nextPacket_packet [where rest = tail]) auto
  show ?thesis
    using n assms(5-7) by (auto simp: connect_reply_def set_state_def Let_def)
qed

lemma connect_reply_rejected:
  assumes "conn c = Some k" "sock_open k"
    and "inbox c = RdPacket reply # tail"
    and "ptype reply = ERR \<or>
         (pos (body reply) < length (buffer (body reply)) \<and>
          buffer (body reply) ! pos (body reply) = 0xff)"
    and "parseError cd (skip 1 (body reply)) (after_read c) = Inr ep"
  shows "connect_reply cd c = (Inl (Error (message ep)), after_read c) \<or>
         connect_reply cd c = (Inl (Error (message ep)), closed k (after_read c))"
proof (cases "ptype reply = ERR")
  case True
  have "nextPacket cd c = (Inl (Error (message ep)), after_read c)"
    using assms(1-3,5) True
    by (simp add: nextPacket_def after_read_def log_op_def Let_def)
  then show ?thesis by (simp add: connect_reply_def)
next
  case False
  have n: "nextPacket cd c = (Inr reply, after_read c)"
    using assms(1-3) False by (intro nextPacket_packet [where rest = tail]) auto
  from False assms(4) have "readUint8 (body reply) = Inr (0xff, skip 1 (body reply))"
    by (simp add: readUint8_def skip_def)
  moreover have "close (after_read c) = (Inr (), closed k (after_read c))"
    using assms(1,2) by (intro close_open_socket) auto
  ultimately show ?thesis
    using n assms(5) by (simp add: connect_reply_def close_then_throw_def)
qed

subsection \<open>What a step leaves alone\<close>

lemma kept_pure [simp]: "kept c (r, c)"
  by (simp add: kept_def)

lemma kept_bind:
  assumes "kept c (f c)"
    and "\<And>x c1. f c = (Inr x, c1) \<Longrightarrow> kept c1 (g x c1)"
  shows "kept c (case f c of (Inl e, c1) \<Rightarrow> (Inl e, c1) | (Inr x, c1) \<Rightarrow> g x c1)"
proof (cases "f c")
  case (Pair r c1)
  show ?thesis
  proof (cases r)
    case (Inl e)
    then show ?thesis using assms(1) Pair by (simp add: kept_def)
  next
    case (Inr x)
    with assms(1) assms(2) [of x c1] Pair show ?thesis by (simp add: kept_def)
  qed
qed

lemma close_kept: "kept c (close c)"
  by (simp add: kept_def close_def conn_close_def set_state_def log_op_def Let_def
      split: option.splits)

lemma close_then_throw_kept: "kept c (close_then_throw e c)"
  using close_kept [of c]
  by (cases "close c") (auto simp: close_then_throw_def kept_def split: sum.splits)

lemma send_kept: "kept c (send d q c)"
  by (simp add: kept_def send_def log_op_def Let_def split: option.splits list.splits)

lemma nextPacket_kept: "kept c (nextPacket cd c)"
  using close_kept close_then_throw_kept
  by (auto simp: kept_def nextPacket_def read_failed_def timeoutCallback_def
      close_then_throw_def close_def conn_close_def set_state_def log_op_def Let_def
      split: option.splits list.splits rd_event.splits sum.splits)

lemma readFields_kept: "kept c (readFields cd n fs c)"
proof (induction n arbitrary: fs c)
  case 0
  then show ?case by simp
next
  case (Suc n)
  have "kept c
     (case nextPacket cd c of
        (Inl e, c1) \<Rightarrow> (Inl e, c1)
      | (Inr pk, c1) \<Rightarrow>
          (case parseField cd (body pk) of
             Inl e \<Rightarrow> (Inl e, c1)
           | Inr field \<Rightarrow> readFields cd n (fs @ [field]) c1))"
    by (rule kept_bind [where f = "nextPacket cd"], rule nextPacket_kept)
      (simp add: Suc.IH split: sum.splits)
  then show ?case by simp
qed

lemma readRows_kept: "kept c (readRows cd fs rs c)"
proof (induction cd fs rs c rule: readRows.induct)
  case (1 cd fs rs c)
  have "kept c
     (case nextPacket cd c of
        (Inl e, c1) \<Rightarrow> (Inl e, c1)
      | (Inr receive, c1) \<Rightarrow>
          if ptype receive = EOF then (Inr rs, c1)
          else
            (case parseRow cd (body receive) fs of
               Inl e \<Rightarrow> (Inl e, c1)
             | Inr row \<Rightarrow> readRows cd fs (rs @ [row]) c1))"
  proof (rule kept_bind [where f = "nextPacket cd"], rule nextPacket_kept)
    fix x c1
    assume np: "nextPacket cd c = (Inr x, c1)"
    show "kept c1
        (if ptype x = EOF then (Inr rs, c1)
         else case parseRow cd (body x) fs of
                Inl e \<Rightarrow> (Inl e, c1)
              | Inr row \<Rightarrow> readRows cd fs (rs @ [row]) c1)"
    proof (cases "ptype x = EOF")
      case True
      then show ?thesis by simp
    next
      case False
      show ?thesis
      proof (cases "parseRow cd (body x) fs")
        case (Inl e)
        with False show ?thesis by simp
      next
        case (Inr row)
        have "kept c1 (readRows cd fs (rs @ [row]) c1)"
          using np False Inr by (intro "1.IH") auto
        with False Inr show ?thesis by simp
      qed
    qed
  qed
  then show ?case by (subst readRows.simps)
qed

lemma legacyEof_kept: "kept c (legacyEof cd c)"
proof (cases "lessThan57 c")
  case True
  have "kept c
     (case nextPacket cd c of
        (Inl e, c1) \<Rightarrow> (Inl e, c1)
      | (Inr receive, c1) \<Rightarrow> (Inr (), c1))"
    by (rule kept_bind [where f = "nextPacket cd"], rule nextPacket_kept) simp
  with True show ?thesis by (simp add: legacyEof_def)
next
  case False
  then show ?thesis by (simp add: legacyEof_def)
qed

lemma rows_kept:
  "kept c (case readRows cd fs [] c of
             (Inl e, c4) \<Rightarrow> (Inl e, c4)
           | (Inr rs, c4) \<Rightarrow> (Inr (result_set fs rs), c4))"
  by (rule kept_bind [where f = "readRows cd fs []"], rule readRows_kept) simp

lemma legacy_rows_kept:
  "kept c (case legacyEof cd c of
             (Inl e, c3) \<Rightarrow> (Inl e, c3)
           | (Inr u, c3) \<Rightarrow>
               (case readRows cd fs [] c3 of
                  (Inl e, c4) \<Rightarrow> (Inl e, c4)
                | (Inr rs, c4) \<Rightarrow> (Inr (result_set fs rs), c4)))"
  by (rule kept_bind [where f = "legacyEof cd"], rule legacyEof_kept) (rule rows_kept)

lemma fields_rows_kept:
  "kept c (case readFields cd n [] c of
             (Inl e, c2) \<Rightarrow> (Inl e, c2)
           | (Inr fs, c2) \<Rightarrow>
               (case legacyEof cd c2 of
                  (Inl e, c3) \<Rightarrow> (Inl e, c3)
                | (Inr u, c3) \<Rightarrow>
                    (case readRows cd fs [] c3 of
                       (Inl e, c4) \<Rightarrow> (Inl e, c4)
                     | (Inr rs, c4) \<Rightarrow> (Inr (result_set fs rs), c4))))"
  by (rule kept_bind [where f = "readFields cd n []"], rule readFields_kept)
    (rule legacy_rows_kept)

lemma readResponse_kept: "kept c (readResponse cd c)"
  unfolding readResponse_def
  by (rule kept_bind [where f = "nextPacket cd"], rule nextPacket_kept)
    (simp add: fields_rows_kept split: sum.splits)

lemma kept_trans: "kept c (r, c1) \<Longrightarrow> kept c1 rc \<Longrightarrow> kept c rc"
  by (simp add: kept_def)

lemma execute_kept: "kept c (execute cd sql params c)"
proof (cases "state c = CONNECTED")
  case False
  then show ?thesis by (simp add: execute_def)
next
  case True
  show ?thesis
  proof (cases "buildQuery cd sql params")
    case (Inl e)
    with True show ?thesis by (simp add: execute_def)
  next
    case (Inr data)
    show ?thesis
    proof (cases "send data 0 c")
      case (Pair r c1)
      have k1: "kept c (r, c1)"
        using send_kept [of c data 0] Pair by simp
      show ?thesis
      proof (cases r)
        case (Inl e)
        have "kept c (close_then_throw e c1 :: (error + ('a, 'b) ExecuteResult) \<times> Connection)"
          using k1 close_then_throw_kept by (rule kept_trans)
        then show ?thesis
          using True Inr Pair Inl k1 by (simp add: execute_def kept_def)
      next
        case (Inr u)
        have "kept c (readResponse cd c1 :: (error + ('a, 'b) ExecuteResult) \<times> Connection)"
          using k1 readResponse_kept by (rule kept_trans)
        then show ?thesis
          using True \<open>buildQuery cd sql params = Inr data\<close> Pair Inr
          by (simp add: execute_def)
      qed
    qed
  qed
qed

lemma connect_reply_kept: "kept c (connect_reply cd c)"
  unfolding connect_reply_def
proof (rule kept_bind [where f = "nextPacket cd"], rule nextPacket_kept)
  fix x c1
  have s: "kept c1 (Inr (), set_state CONNECTED c1)"
    by (simp add: kept_def set_state_def)
  have ex: "kept c1
              (case execute cd sql None (set_state CONNECTED c1) of
                 (Inl e, c3) \<Rightarrow> (Inl e, c3)
               | (Inr result, c3) \<Rightarrow> (Inr (), c3))" for sql
    by (rule kept_trans [OF s], rule kept_bind [where f = "execute cd sql None"],
        rule execute_kept) simp
  show "kept c1
     (case readUint8 (body x) of
        Inl e \<Rightarrow> (Inl e, c1)
      | Inr (header, b1) \<Rightarrow>
          if header = 0xff then
            (case parseError cd b1 c1 of
               Inl e \<Rightarrow> (Inl e, c1)
             | Inr err \<Rightarrow> close_then_throw (Error (message err)) c1)
          else
            (let c2 = set_state CONNECTED c1 in
             case charset (config c2) of
               None \<Rightarrow> (Inr (), c2)
             | Some cs \<Rightarrow>
                 if cs = [] then (Inr (), c2)
                 else
                   (case execute cd (''SET NAMES '' @ cs) None c2 of
                      (Inl e, c3) \<Rightarrow> (Inl e, c3)
                    | (Inr result, c3) \<Rightarrow> (Inr (), c3))))"
    using ex [of "''SET NAMES '' @ cs" for cs] s
    by (auto simp: Let_def close_then_throw_kept split: sum.splits option.splits)
qed

subsection \<open>The reply to the authentication\<close>

lemma sample_message: "text_of [0x64, 0x65, 0x6e, 0x69, 0x65, 0x64] = ''denied''"
  by code_simp

text \<open>
  C9: the server rejects the authentication. The socket is opened, the handshake is read
  and parsed, the authentication is sent. The second packet is an \<open>ERR\<close> packet: it is
  classified \<open>ERR\<close>, or its leading byte is \<open>0xff\<close>. \<open>parseError\<close>, applied past
  that byte, yields the server's message. Then \<open>connect\<close> fails with an \<open>Error\<close> that
  carries this message; the socket was closed once and the state went through
  \<open>CONNECTING\<close> and \<open>CLOSING\<close> to \<open>CLOSED\<close>.
\<close>

theorem connect_rejected:
  assumes "dial_ok c" "write_ok c"
    and "inbox c = RdPacket hs # RdPacket reply # tail" "ptype hs \<noteq> ERR"
    and "parseHandshake cd (body hs) = Inr hp"
    and "buildAuth cd hp (auth_params c) = Inr data"
    and "ptype reply = ERR \<or>
         (pos (body reply) < length (buffer (body reply)) \<and>
          buffer (body reply) ! pos (body reply) = 0xff)"
    and "parseError cd (skip 1 (body reply)) (after_read (handshaken hp data c)) = Inr ep"
  shows "connect cd c =
           (Inl (Error (message ep)),
            closed \<lparr>sock_open = True\<rparr> (after_read (handshaken hp data c)))
         \<and> state (snd (connect cd c)) = CLOSED
         \<and> conn (snd (connect cd c)) = Some \<lparr>sock_open = False\<rparr>
         \<and> trace (snd (connect cd c)) = trace c @ [CONNECTING, CLOSING, CLOSED]"
proof -
  let ?c3 = "handshaken hp data c"
  let ?k = "\<lparr>sock_open = True\<rparr>"
  have h: "connect cd c =
     (case connect_reply cd ?c3 of
        (Inl e, c2) \<Rightarrow> (if state c2 \<noteq> CLOSED then close_then_throw e c2 else (Inl e, c2))
      | (Inr u, c2) \<Rightarrow> (Inr (), c2))"
    using assms(1,2) _ assms(4-6) by (rule connect_handshake) (simp add: assms(3))
  have cl: "close (after_read ?c3) = (Inr (), closed ?k (after_read ?c3))"
    by (intro close_open_socket) auto
  have "connect_reply cd ?c3 = (Inl (Error (message ep)), after_read ?c3) \<or>
        connect_reply cd ?c3 = (Inl (Error (message ep)), closed ?k (after_read ?c3))"
    using assms(3,7,8)
    by (intro connect_reply_rejected [where tail = tail and reply = reply]) auto
  then have "connect cd c = (Inl (Error (message ep)), closed ?k (after_read ?c3))"
  proof
    assume "connect_reply cd ?c3 = (Inl (Error (message ep)), after_read ?c3)"
    then show ?thesis
      using h cl by (simp add: close_then_throw_def)
  next
    assume "connect_reply cd ?c3 = (Inl (Error (message ep)), closed ?k (after_read ?c3))"
    then show ?thesis
      using h by simp
  qed
  then show ?thesis by simp
qed

theorem connect_rejected_witness:
  "fst (connect (sample_codec ''8.0.21'')
          (newConnection sample_config
             [RdPacket (packet RESULT [10]),
              RdPacket (packet ERR [0xff, 0x64, 0x65, 0x6e, 0x69, 0x65, 0x64])] [] []))
     = Inl (Error ''denied'')
   \<and> state (snd (connect (sample_codec ''8.0.21'')
          (newConnection sample_config
             [RdPacket (packet RESULT [10]),
              RdPacket (packet ERR [0xff, 0x64, 0x65, 0x6e, 0x69, 0x65, 0x64])] [] [])))
     = CLOSED"
  using connect_rejected
    [of "newConnection sample_config
             [RdPacket (packet RESULT [10]),
              RdPacket (packet ERR [0xff, 0x64, 0x65, 0x6e, 0x69, 0x65, 0x64])] [] []"
        "packet RESULT [10]" "packet ERR [0xff, 0x64, 0x65, 0x6e, 0x69, 0x65, 0x64]" "[]"
        "sample_codec ''8.0.21''"
        "\<lparr>protocolVersion = 10, serverVersion = ''8.0.21'', connectionId = 1,
          authSeed = [], serverCapabilities = 0xf7ff, hcharset = 33\<rparr>"
        "[]" "\<lparr>code = 1045, message = ''denied''\<rparr>"]
  by (simp add: newConnection_def sample_codec_def sample_config_def packet_def
      dial_ok_def write_ok_def auth_params_def skip_def sample_message)

text \<open>
  C10: the fields taken from the handshake. Once the handshake is parsed and the
  authentication sent, \<open>connect\<close> goes on from a connection on which \<open>serverVersion\<close>
  and \<open>capabilities\<close> hold the values of the handshake packet: the reply is read and
  inspected after that. Whatever the rest of \<open>connect\<close> meets, a rejection by the
  server included, the two fields hold these values when \<open>connect\<close> is over.
\<close>

theorem handshake_recorded:
  assumes "dial_ok c" "write_ok c"
    and "inbox c = RdPacket hs # tail" "ptype hs \<noteq> ERR"
    and "parseHandshake cd (body hs) = Inr hp"
    and "buildAuth cd hp (auth_params c) = Inr data"
  shows "connect cd c =
           (case connect_reply cd (handshaken hp data c) of
              (Inl e, c2) \<Rightarrow>
                (if state c2 \<noteq> CLOSED then close_then_throw e c2 else (Inl e, c2))
            | (Inr u, c2) \<Rightarrow> (Inr (), c2))
         \<and> Connection.serverVersion (handshaken hp data c) = HandshakePacket.serverVersion hp
         \<and> capabilities (handshaken hp data c) = serverCapabilities hp
         \<and> Connection.serverVersion (snd (connect cd c)) = HandshakePacket.serverVersion hp
         \<and> capabilities (snd (connect cd c)) = serverCapabilities hp"
proof -
  let ?c3 = "handshaken hp data c"
  have h: "connect cd c =
     (case connect_reply cd ?c3 of
        (Inl e, c2) \<Rightarrow> (if state c2 \<noteq> CLOSED then close_then_throw e c2 else (Inl e, c2))
      | (Inr u, c2) \<Rightarrow> (Inr (), c2))"
    using assms by (rule connect_handshake)
  obtain r c2 where rc: "connect_reply cd ?c3 = (r, c2)"
    by (cases "connect_reply cd ?c3")
  have k2: "kept ?c3 (r, c2)"
    using connect_reply_kept [of ?c3 cd] rc by simp
  have "kept ?c3 (connect cd c)"
  proof (cases r)
    case (Inl e)
    have "kept ?c3 (close_then_throw e c2 :: (error + unit) \<times> Connection)"
      using k2 close_then_throw_kept by (rule kept_trans)
    then show ?thesis
      using h rc Inl k2 by (simp add: kept_def)
  next
    case (Inr u)
    then show ?thesis
      using h rc k2 by (simp add: kept_def)
  qed
  then show ?thesis
    using h by (simp add: kept_def)
qed

theorem handshake_recorded_witness:
  "fst (connect (sample_codec ''8.0.21'')
          (newConnection sample_config
             [RdPacket (packet RESULT [10]),
              RdPacket (packet ERR [0xff, 0x64, 0x65, 0x6e, 0x69, 0x65, 0x64])] [] []))
     = Inl (Error ''denied'')
   \<and> Connection.serverVersion (snd (connect (sample_codec ''8.0.21'')
          (newConnection sample_config
             [RdPacket (packet RESULT [10]),
              RdPacket (packet ERR [0xff, 0x64, 0x65, 0x6e, 0x69, 0x65, 0x64])] [] [])))
     = ''8.0.21''
   \<and> capabilities (snd (connect (sample_codec ''8.0.21'')
          (newConnection sample_config
             [RdPacket (packet RESULT [10]),
              RdPacket (packet ERR [0xff, 0x64, 0x65, 0x6e, 0x69, 0x65, 0x64])] [] [])))
     = 0xf7ff"
  using handshake_recorded
    [of "newConnection sample_config
             [RdPacket (packet RESULT [10]),
              RdPacket (packet ERR [0xff, 0x64, 0x65, 0x6e, 0x69, 0x65, 0x64])] [] []"
        "packet RESULT [10]"
        "[RdPacket (packet ERR [0xff, 0x64, 0x65, 0x6e, 0x69, 0x65, 0x64])]"
        "sample_codec ''8.0.21''"
        "\<lparr>protocolVersion = 10, serverVersion = ''8.0.21'', connectionId = 1,
          authSeed = [], serverCapabilities = 0xf7ff, hcharset = 33\<rparr>"
        "[]"]
  by (simp add: run_defs handshaken_def dialed_def after_read_def sent_def
      dial_ok_def write_ok_def auth_params_def sample_message)

section \<open>Operations on a connection that is not \<open>CONNECTED\<close>\<close>

text \<open>
  C6, as stated: the messages would be \<open>connection is closed\<close> and
  \<open>must be connected first\<close>. The messages of the code begin with a capital letter.
\<close>

theorem execute_not_connected_messages:
  "fst (execute (sample_codec ''8.0.21'') ''SELECT 1'' None
          (snd (close (newConnection sample_config [] [] []))))
     \<noteq> Inl (ConnnectionError ''connection is closed'')
   \<and> fst (execute (sample_codec ''8.0.21'') ''SELECT 1'' None
          (newConnection sample_config [] [] []))
     \<noteq> Inl (ConnnectionError ''must be connected first'')"
  by (simp add: execute_def close_def set_state_def newConnection_def)

text \<open>
  C6, amended: when the state is not \<open>CONNECTED\<close>, \<open>execute\<close> and \<open>query\<close> fail with
  a \<open>ConnnectionError\<close> whose message is \<open>Connection is closed\<close> in state \<open>CLOSED\<close>
  and \<open>Must be connected first\<close> in the states \<open>CONNECTING\<close> and \<open>CLOSING\<close>. The
  connection is returned as it was: nothing was written, read, closed or assigned.
\<close>

theorem execute_not_connected:
  assumes "state c \<noteq> CONNECTED"
  shows "execute cd sql params c =
           (Inl (ConnnectionError
                   (if state c = CLOSED then ''Connection is closed''
                    else ''Must be connected first'')), c)
         \<and> query cd sql params c =
           (Inl (ConnnectionError
                   (if state c = CLOSED then ''Connection is closed''
                    else ''Must be connected first'')), c)"
  using assms by (simp add: query_def execute_def)

theorem execute_not_connected_witness:
  "state (snd (close (newConnection sample_config [] [] []))) = CLOSED
   \<and> execute (sample_codec ''8.0.21'') ''SELECT 1'' None
          (snd (close (newConnection sample_config [] [] [])))
       = (Inl (ConnnectionError ''Connection is closed''),
          snd (close (newConnection sample_config [] [] [])))
   \<and> query (sample_codec ''8.0.21'') ''SELECT 1'' None
          (newConnection sample_config [] [] [])
       = (Inl (ConnnectionError ''Must be connected first''),
          newConnection sample_config [] [] [])"
proof -
  have 1: "state (snd (close (newConnection sample_config [] [] []))) = CLOSED"
    by (simp add: close_def set_state_def newConnection_def)
  have 2: "state (newConnection sample_config [] [] []) = CONNECTING"
    by (simp add: newConnection_def)
  show ?thesis
    using 1 2
      execute_not_connected [of "snd (close (newConnection sample_config [] [] []))"
        "sample_codec ''8.0.21''" "''SELECT 1''" None]
      execute_not_connected [of "newConnection sample_config [] [] []"
        "sample_codec ''8.0.21''" "''SELECT 1''" None]
    by simp
qed

section \<open>Closing\<close>

text \<open>\<open>close\<close> on a connection without a socket, or with an open one.\<close>

lemma close_returns:
  "conn c = None \<or> (\<exists>k. conn c = Some k \<and> sock_open k) \<Longrightarrow>
   fst (close c) = Inr () \<and> state (snd (close c)) = CLOSED
   \<and> trace (snd (close c)) = trace c @ [CLOSING, CLOSED]"
  by (auto simp: close_def conn_close_def set_state_def log_op_def Let_def)

text \<open>\<open>close\<close> on a connection whose socket is closed already.\<close>

lemma close_raises:
  "conn c = Some k \<Longrightarrow> \<not> sock_open k \<Longrightarrow>
   close c = (Inl BadResource, log_op SockClose (set_state CLOSING c))"
  by (simp add: close_def conn_close_def Let_def set_state_def log_op_def)

text \<open>
  C7: \<open>close\<close> called again. A connection is brought to \<open>CONNECTED\<close> by \<open>connect\<close>;
  the first \<open>close\<close> returns and leaves the state \<open>CLOSED\<close>; the second one calls
  \<open>close\<close> on the socket again, which raises, and the state is left \<open>CLOSING\<close>. The
  same happens to a \<open>close\<close> after an \<open>execute\<close> that ran into the response timeout.
\<close>

theorem close_twice:
  "state (snd (connect (sample_codec ''8.0.21'')
      (newConnection sample_config
         [RdPacket (packet RESULT [10]), RdPacket (packet OK [0])] [] []))) = CONNECTED
   \<and> fst (close (snd (connect (sample_codec ''8.0.21'')
      (newConnection sample_config
         [RdPacket (packet RESULT [10]), RdPacket (packet OK [0])] [] [])))) = Inr ()
   \<and> state (snd (close (snd (connect (sample_codec ''8.0.21'')
      (newConnection sample_config
         [RdPacket (packet RESULT [10]), RdPacket (packet OK [0])] [] []))))) = CLOSED
   \<and> fst (close (snd (close (snd (connect (sample_codec ''8.0.21'')
      (newConnection sample_config
         [RdPacket (packet RESULT [10]), RdPacket (packet OK [0])] [] []))))))
       = Inl (IOError ''Bad resource ID'')
   \<and> state (snd (close (snd (close (snd (connect (sample_codec ''8.0.21'')
      (newConnection sample_config
         [RdPacket (packet RESULT [10]), RdPacket (packet OK [0])] [] [])))))))
       = CLOSING
   \<and> state (snd (execute (sample_codec ''8.0.21'') ''SELECT 1'' None
                  (connected_to ''8.0.21'' []))) = CLOSED
   \<and> fst (close (snd (execute (sample_codec ''8.0.21'') ''SELECT 1'' None
                  (connected_to ''8.0.21'' []))))
       = Inl (IOError ''Bad resource ID'')
   \<and> state (snd (close (snd (execute (sample_codec ''8.0.21'') ''SELECT 1'' None
                  (connected_to ''8.0.21'' []))))) = CLOSING"
  by (simp add: run_defs)

text \<open>
  C8: operations on a connection in state \<open>CLOSED\<close>. A second \<open>close\<close> assigns
  \<open>CLOSING\<close> before \<open>CLOSED\<close>. \<open>connect\<close> on a closed connection opens a socket
  and, when the handshake and the reply go well, assigns \<open>CONNECTING\<close> and
  \<open>CONNECTED\<close>. When its first packet is an \<open>ERR\<close> packet, \<open>connect\<close> fails with
  the server's message, and because the state is still \<open>CLOSED\<close> the socket it opened is
  not closed.
\<close>

theorem closed_not_terminal:
  "state (snd (close (newConnection sample_config [] [] []))) = CLOSED
   \<and> trace (snd (close (snd (close (newConnection sample_config [] [] [])))))
       = [CLOSING, CLOSED, CLOSING, CLOSED]
   \<and> state (snd (close (newConnection sample_config
         [RdPacket (packet RESULT [10]), RdPacket (packet OK [0])] [] []))) = CLOSED
   \<and> fst (connect (sample_codec ''8.0.21'')
        (snd (close (newConnection sample_config
           [RdPacket (packet RESULT [10]), RdPacket (packet OK [0])] [] [])))) = Inr ()
   \<and> trace (snd (connect (sample_codec ''8.0.21'')
        (snd (close (newConnection sample_config
           [RdPacket (packet RESULT [10]), RdPacket (packet OK [0])] [] [])))))
       = [CLOSING, CLOSED, CONNECTING, CONNECTED]
   \<and> state (snd (connect (sample_codec ''8.0.21'')
        (snd (close (newConnection sample_config
           [RdPacket (packet RESULT [10]), RdPacket (packet OK [0])] [] []))))) = CONNECTED
   \<and> fst (connect (sample_codec ''8.0.21'')
        (snd (close (newConnection sample_config
           [RdPacket (packet ERR [0xff, 0x64, 0x65, 0x6e, 0x69, 0x65, 0x64])] [] []))))
       = Inl (Error ''denied'')
   \<and> state (snd (connect (sample_codec ''8.0.21'')
        (snd (close (newConnection sample_config
           [RdPacket (packet ERR [0xff, 0x64, 0x65, 0x6e, 0x69, 0x65, 0x64])] [] [])))))
       = CLOSED
   \<and> conn (snd (connect (sample_codec ''8.0.21'')
        (snd (close (newConnection sample_config
           [RdPacket (packet ERR [0xff, 0x64, 0x65, 0x6e, 0x69, 0x65, 0x64])] [] [])))))
       = Some \<lparr>sock_open = True\<rparr>
   \<and> ops (snd (connect (sample_codec ''8.0.21'')
        (snd (close (newConnection sample_config
           [RdPacket (packet ERR [0xff, 0x64, 0x65, 0x6e, 0x69, 0x65, 0x64])] [] [])))))
       = [SockConnect ''db.local'' 3306, SetTimeout 30000, SockRead, ClearTimeout]"
  by (simp add: run_defs sample_message)

end
